theory Spec2Isabelle
  imports Complex_Main
begin

section \<open>Text\<close>

text \<open>
  Python strings (sequences of code points) and JavaScript strings (sequences of UTF-16
  code units) are modelled as lists of natural numbers, one number per code point or code
  unit.  \<open>asc\<close> embeds an ASCII literal.
\<close>

type_synonym str = "nat list"

definition asc :: "string \<Rightarrow> str" where
  "asc s = map of_char s"

text \<open>
  Exceptions of the Python programs.  \<open>PlaywrightError\<close> stands for whatever the browser
  automation raises (time-outs, closed pages, failed navigation).
\<close>

datatype exn = ValueError | IndexError | OverflowError | TypeError | PlaywrightError

text \<open>
  \<open>str.isspace\<close>, which is also the class \<open>\s\<close> of Python's \<open>re\<close> on \<open>str\<close> patterns, and the
  white space and line terminators that \<open>\s\<close> and \<open>trim\<close> mean in JavaScript.
\<close>

definition py_isspace :: "nat \<Rightarrow> bool" where
  "py_isspace x = ((9 \<le> x \<and> x \<le> 13) \<or> (28 \<le> x \<and> x \<le> 32) \<or> x = 133 \<or> x = 160
      \<or> x = 5760 \<or> (8192 \<le> x \<and> x \<le> 8202) \<or> x = 8232 \<or> x = 8233 \<or> x = 8239
      \<or> x = 8287 \<or> x = 12288)"

definition js_isspace :: "nat \<Rightarrow> bool" where
  "js_isspace x = ((9 \<le> x \<and> x \<le> 13) \<or> x = 32 \<or> x = 160 \<or> x = 5760
      \<or> (8192 \<le> x \<and> x \<le> 8202) \<or> x = 8232 \<or> x = 8233 \<or> x = 8239 \<or> x = 8287
      \<or> x = 12288 \<or> x = 65279)"

text \<open>
  The decimal digits.  Python's \<open>\d\<close>, \<open>float\<close> and \<open>int\<close> also accept the decimal digits of
  other scripts; the model keeps to the ASCII digits, which is all that JavaScript's \<open>\d\<close>
  means.
\<close>

definition is_digit :: "nat \<Rightarrow> bool" where
  "is_digit x = (48 \<le> x \<and> x \<le> 57)"

text \<open>
  A lower-case ASCII letter \<open>c\<close> of a pattern compiled with \<open>re.IGNORECASE\<close> matches itself,
  its capital, and for \<open>i\<close>, \<open>s\<close> and \<open>k\<close> the four letters U+0130, U+0131, U+017F and U+212A.
\<close>

definition ci_eq :: "nat \<Rightarrow> nat \<Rightarrow> bool" where
  "ci_eq c x = (x = c \<or> (97 \<le> c \<and> c \<le> 122 \<and> x + 32 = c)
       \<or> (c = 105 \<and> (x = 304 \<or> x = 305))
       \<or> (c = 115 \<and> x = 383) \<or> (c = 107 \<and> x = 8490))"

text \<open>
  Under the flag \<open>i\<close> of a JavaScript pattern without the flag \<open>u\<close>, a lower-case ASCII
  letter matches itself and its capital only.
\<close>

definition js_ci_eq :: "nat \<Rightarrow> nat \<Rightarrow> bool" where
  "js_ci_eq c x = (x = c \<or> (97 \<le> c \<and> c \<le> 122 \<and> x + 32 = c))"

text \<open>\<open>str.strip()\<close> and \<open>String.prototype.trim()\<close>.\<close>

definition py_strip :: "str \<Rightarrow> str" where
  "py_strip s = rev (dropWhile py_isspace (rev (dropWhile py_isspace s)))"

definition js_trim :: "str \<Rightarrow> str" where
  "js_trim s = rev (dropWhile js_isspace (rev (dropWhile js_isspace s)))"

section \<open>Regular expressions\<close>

text \<open>
  The patterns of the programs are sequences of character classes with \<open>*\<close>, \<open>+\<close>, \<open>?\<close>,
  lazy \<open>+?\<close>, capture groups that do not nest, anchors and alternatives.  \<open>rx\<close> is the
  backtracking matcher of Python's \<open>re\<close> and of JavaScript: alternatives are tried in
  order, a greedy star takes the longest run first and a lazy one the shortest.  Its
  arguments are the rest of the pattern, the position in the text, the rest of the text,
  the group being captured and the groups already captured.
\<close>

datatype cls = Ch nat | ChI nat | ChJ nat | Digit | PySpace | JsSpace | JsDot | Range nat nat
  | Union cls cls | Not cls

fun in_cls :: "cls \<Rightarrow> nat \<Rightarrow> bool" where
  "in_cls (Ch c) x = (x = c)"
| "in_cls (ChI c) x = ci_eq c x"
| "in_cls (ChJ c) x = js_ci_eq c x"
| "in_cls Digit x = is_digit x"
| "in_cls PySpace x = py_isspace x"
| "in_cls JsSpace x = js_isspace x"
| "in_cls JsDot x = (x \<noteq> 10 \<and> x \<noteq> 13 \<and> x \<noteq> 8232 \<and> x \<noteq> 8233)"
| "in_cls (Range a b) x = (a \<le> x \<and> x \<le> b)"
| "in_cls (Union p q) x = (in_cls p x \<or> in_cls q x)"
| "in_cls (Not p) x = (\<not> in_cls p x)"

datatype item = C cls | Star cls | LazyStar cls | Open | Close | Bol | Eol
  | Alt "item list" "item list"

fun isz :: "item \<Rightarrow> nat" and iszs :: "item list \<Rightarrow> nat" where
  "isz (Alt a b) = Suc (iszs a + iszs b)"
| "isz (C c) = 1"
| "isz (Star c) = 1"
| "isz (LazyStar c) = 1"
| "isz Open = 1"
| "isz Close = 1"
| "isz Bol = 1"
| "isz Eol = 1"
| "iszs [] = 0"
| "iszs (i # r) = isz i + iszs r"

fun push :: "nat \<Rightarrow> str option \<Rightarrow> str option" where
  "push x None = None"
| "push x (Some g) = Some (g @ [x])"

function rx :: "item list \<Rightarrow> nat \<Rightarrow> str \<Rightarrow> str option \<Rightarrow> str list \<Rightarrow> (nat \<times> str list) option" where
  "rx [] pos s cur done = Some (pos, done)"
| "rx (C c # r) pos [] cur done = None"
| "rx (C c # r) pos (x # xs) cur done =
     (if in_cls c x then rx r (Suc pos) xs (push x cur) done else None)"
| "rx (Star c # r) pos [] cur done = rx r pos [] cur done"
| "rx (Star c # r) pos (x # xs) cur done =
     (if in_cls c x
      then (case rx (Star c # r) (Suc pos) xs (push x cur) done of
              Some res \<Rightarrow> Some res
            | None \<Rightarrow> rx r pos (x # xs) cur done)
      else rx r pos (x # xs) cur done)"
| "rx (LazyStar c # r) pos [] cur done = rx r pos [] cur done"
| "rx (LazyStar c # r) pos (x # xs) cur done =
     (case rx r pos (x # xs) cur done of
        Some res \<Rightarrow> Some res
      | None \<Rightarrow>
          if in_cls c x then rx (LazyStar c # r) (Suc pos) xs (push x cur) done else None)"
| "rx (Open # r) pos s cur done = rx r pos s (Some []) done"
| "rx (Close # r) pos s cur done =
     rx r pos s None (done @ [case cur of None \<Rightarrow> [] | Some g \<Rightarrow> g])"
| "rx (Bol # r) pos s cur done = (if pos = 0 then rx r pos s cur done else None)"
| "rx (Eol # r) pos s cur done = (if s = [] then rx r pos s cur done else None)"
| "rx (Alt a b # r) pos s cur done =
     (case rx (a @ r) pos s cur done of
        Some res \<Rightarrow> Some res
      | None \<Rightarrow> rx (b @ r) pos s cur done)"
  by pat_completeness auto
termination
proof -
  have app: "iszs (a @ b) = iszs a + iszs b" for a b
    by (induction a) simp_all
  show ?thesis
    by (relation "measures [\<lambda>(p, pos, s, cur, done). iszs p,
                            \<lambda>(p, pos, s, cur, done). length s]")
       (auto simp: app)
qed

text \<open>
  \<open>re.search\<close> and \<open>String.prototype.match\<close>: the match at the leftmost position that has
  one.  The result is the end of the match and the captured groups.
\<close>

fun search :: "item list \<Rightarrow> nat \<Rightarrow> str \<Rightarrow> (nat \<times> str list) option" where
  "search p pos [] = rx p pos [] None []"
| "search p pos (x # xs) =
     (case rx p pos (x # xs) None [] of
        Some res \<Rightarrow> Some res
      | None \<Rightarrow> search p (Suc pos) xs)"

text \<open>
  Literal text, literal text under \<open>IGNORECASE\<close> and under the flag \<open>i\<close> of JavaScript (both
  for lower-case text), \<open>c+\<close> and \<open>c?\<close>.
\<close>

definition lits :: "string \<Rightarrow> item list" where
  "lits s = map (\<lambda>c. C (Ch c)) (asc s)"

definition litsI :: "string \<Rightarrow> item list" where
  "litsI s = map (\<lambda>c. C (ChI c)) (asc s)"

definition litsJ :: "string \<Rightarrow> item list" where
  "litsJ s = map (\<lambda>c. C (ChJ c)) (asc s)"

definition many1 :: "cls \<Rightarrow> item list" where
  "many1 c = [C c, Star c]"

definition opt :: "cls \<Rightarrow> item" where
  "opt c = Alt [C c] []"

text \<open>
  Auxiliary notions for stating what a match consumed: appending a run of characters to
  the group being captured, and containing a word up to the case folding of \<open>ci_eq\<close>.
\<close>

fun pushes :: "str \<Rightarrow> str option \<Rightarrow> str option" where
  "pushes ds None = None"
| "pushes ds (Some g) = Some (g @ ds)"

fun ci_prefix :: "str \<Rightarrow> str \<Rightarrow> bool" where
  "ci_prefix [] s = True"
| "ci_prefix (c # cs) [] = False"
| "ci_prefix (c # cs) (x # xs) = (ci_eq c x \<and> ci_prefix cs xs)"

fun has_ci :: "str \<Rightarrow> str \<Rightarrow> bool" where
  "has_ci w [] = ci_prefix w []"
| "has_ci w (x # xs) = (ci_prefix w (x # xs) \<or> has_ci w xs)"

section \<open>The fare text parser (uber\_scraper\_weekloop\_2026-02-15.py)\<close>

text \<open>The class \<open>[\d\.]\<close> and the two patterns of \<open>parse_fare_line\<close> (lines 59-63 and 69-73).\<close>

definition DigitDot :: cls where
  "DigitDot = Union Digit (Ch 46)"

definition mile_re :: "item list" where
  "mile_re = [Open] @ many1 DigitDot @ [Close, Star PySpace] @ litsI ''mile''
     @ [Star PySpace, C (Ch 215), Star PySpace, C (Ch 36), Open] @ many1 DigitDot
     @ [Close, C (Ch 47)] @ litsI ''mile''"

definition minute_re :: "item list" where
  "minute_re = [Open] @ many1 DigitDot @ [Close, Star PySpace] @ litsI ''min''
     @ [Alt (litsI ''ute'') [], Star PySpace, C (Ch 215), Star PySpace, C (Ch 36), Open]
     @ many1 DigitDot @ [Close, C (Ch 47)] @ litsI ''min''"

text \<open>
  \<open>float\<close> on a text of digits and dots, which is all that \<open>[\d\.]+\<close> captures: digits with at
  most one dot and at least one digit; anything else is a \<open>ValueError\<close>, here \<open>None\<close>.  The
  value is the exact decimal number; the rounding to a binary double is not modelled.
\<close>

definition dec :: "str \<Rightarrow> nat" where
  "dec ds = foldl (\<lambda>a c. 10 * a + (c - 48)) 0 ds"

definition py_float :: "str \<Rightarrow> rat option" where
  "py_float s =
     (let ip = takeWhile is_digit s; r = dropWhile is_digit s
      in case r of
           [] \<Rightarrow> if ip = [] then None else Some (of_nat (dec ip))
         | c # fp \<Rightarrow>
             if c = 46 \<and> list_all is_digit fp \<and> (ip \<noteq> [] \<or> fp \<noteq> [])
             then Some (of_nat (dec ip) + of_nat (dec fp) / 10 ^ length fp)
             else None)"

type_synonym fare_dict = "string \<rightharpoonup> rat"

text \<open>
  \<open>parse_fare_line\<close>, lines 45-79.  \<open>float\<close> is called on both groups of a match with no
  handler around it, so its \<open>ValueError\<close> leaves the function.
\<close>

definition parse_fare_line :: "str \<Rightarrow> str \<Rightarrow> exn + fare_dict" where
  "parse_fare_line item_label text =
     (case (case search mile_re 0 text of
              None \<Rightarrow> Inr Map.empty
            | Some (e, gs) \<Rightarrow>
                (case gs of
                   [g1, g2] \<Rightarrow>
                     (case py_float g1 of
                        None \<Rightarrow> Inl ValueError
                      | Some miles \<Rightarrow>
                          (case py_float g2 of
                             None \<Rightarrow> Inl ValueError
                           | Some rate_per_mile \<Rightarrow>
                               Inr [''miles'' \<mapsto> miles, ''rate_per_mile'' \<mapsto> rate_per_mile]))
                 | _ \<Rightarrow> Inl IndexError)) of
        Inl err \<Rightarrow> Inl err
      | Inr result \<Rightarrow>
          (case search minute_re 0 text of
             None \<Rightarrow> Inr result
           | Some (e, gs) \<Rightarrow>
               (case gs of
                  [g1, g2] \<Rightarrow>
                    (case py_float g1 of
                       None \<Rightarrow> Inl ValueError
                     | Some minutes \<Rightarrow>
                         (case py_float g2 of
                            None \<Rightarrow> Inl ValueError
                          | Some rate_per_minute \<Rightarrow>
                              Inr (result(''minutes'' \<mapsto> minutes,
                                          ''rate_per_minute'' \<mapsto> rate_per_minute))))
                | _ \<Rightarrow> Inl IndexError)))"

text \<open>
  A numeral as \<open>[\d\.]+\<close> sees it, and the decimal numerals in positional notation: an
  integer part and, after a dot, any number of decimals.
\<close>

definition numeral_text :: "str \<Rightarrow> bool" where
  "numeral_text g = (g \<noteq> [] \<and> list_all (in_cls DigitDot) g)"

definition decimal :: "str \<Rightarrow> str \<Rightarrow> str" where
  "decimal ip fp = ip @ (if fp = [] then [] else 46 # fp)"

definition decimal_value :: "str \<Rightarrow> str \<Rightarrow> rat" where
  "decimal_value ip fp = of_nat (dec ip) + of_nat (dec fp) / 10 ^ length fp"

text \<open>
  The line-item texts \<open>f"{m} mile \<times> ${r}/mile"\<close> and \<open>f"{m} min \<times> ${r}/min"\<close> for numerals
  \<open>m\<close> and \<open>r\<close> already formatted.
\<close>

definition distance_text :: "str \<Rightarrow> str \<Rightarrow> str" where
  "distance_text m r = m @ asc '' mile '' @ [215] @ asc '' $'' @ r @ asc ''/mile''"

definition time_text :: "str \<Rightarrow> str \<Rightarrow> str" where
  "time_text m r = m @ asc '' min '' @ [215] @ asc '' $'' @ r @ asc ''/min''"

section \<open>Trip scraping with a checkpoint file (uber\_scraper\_weekloop\_2026-02-15.py)\<close>

subsection \<open>The loop over the fare line items\<close>

text \<open>
  The accumulators of the loop of \<open>scrape_trip_details\<close> (lines 385-390).  \<open>fare_breakdown\<close>
  is a dictionary in insertion order, from the label to the value and the detail text.
\<close>

record fare_acc =
  fare_breakdown :: "(str \<times> rat option \<times> str) list"
  total_fare :: rat
  distance_miles :: "rat option"
  total_trip_minutes :: "rat option"
  rate_per_mile :: "rat option"
  rate_per_minute :: "rat option"

definition init_acc :: fare_acc where
  "init_acc = \<lparr>fare_breakdown = [], total_fare = 0, distance_miles = None,
               total_trip_minutes = None, rate_per_mile = None, rate_per_minute = None\<rparr>"

text \<open>Assignment \<open>d[k] = v\<close> to a dictionary: a key already present keeps its place.\<close>

fun dict_set :: "'k \<Rightarrow> 'v \<Rightarrow> ('k \<times> 'v) list \<Rightarrow> ('k \<times> 'v) list" where
  "dict_set k v [] = [(k, v)]"
| "dict_set k v ((k', v') # r) = (if k = k' then (k, v) # r else (k', v') # dict_set k v r)"

text \<open>\<open>val_str.replace("$", "").replace(",", "").strip()\<close>, line 392.\<close>

definition val_clean :: "str \<Rightarrow> str" where
  "val_clean val_str = py_strip (filter (\<lambda>c. c \<noteq> 44) (filter (\<lambda>c. c \<noteq> 36) val_str))"

text \<open>\<open>x or 0.0\<close> for an optional number.\<close>

definition or_zero :: "rat option \<Rightarrow> rat" where
  "or_zero x = (case x of None \<Rightarrow> 0 | Some v \<Rightarrow> if v = 0 then 0 else v)"

text \<open>
  One iteration of the loop, lines 392-408.  \<open>value_float\<close> is \<open>float\<close> on the cleaned value
  text, \<open>None\<close> for the \<open>ValueError\<close> that line 395 catches; the numbers are exact.  An
  exception of \<open>parse_fare_line\<close> is not caught here.
\<close>

definition fare_step ::
  "(str \<Rightarrow> rat option) \<Rightarrow> fare_acc \<Rightarrow> str \<times> str \<times> str \<Rightarrow> exn + fare_acc" where
  "fare_step value_float acc item =
     (case item of (lbl, val_str, detail) \<Rightarrow>
        let vc = val_clean val_str;
            val = (if vc \<noteq> [] then value_float vc else None);
            acc1 = acc\<lparr>fare_breakdown := dict_set lbl (val, detail) (fare_breakdown acc),
                       total_fare := (case val of None \<Rightarrow> total_fare acc
                                      | Some v \<Rightarrow> total_fare acc + v)\<rparr>
        in case parse_fare_line lbl detail of
             Inl err \<Rightarrow> Inl err
           | Inr parsed \<Rightarrow>
               Inr (acc1\<lparr>
                 distance_miles :=
                   (case parsed ''miles'' of None \<Rightarrow> distance_miles acc1
                    | Some mi \<Rightarrow> Some (or_zero (distance_miles acc1) + mi)),
                 total_trip_minutes :=
                   (case parsed ''minutes'' of None \<Rightarrow> total_trip_minutes acc1
                    | Some mn \<Rightarrow> Some (or_zero (total_trip_minutes acc1) + mn)),
                 rate_per_mile :=
                   (case parsed ''rate_per_mile'' of None \<Rightarrow> rate_per_mile acc1
                    | Some rt \<Rightarrow> if rt \<noteq> 0 \<and> (rate_per_mile acc1 = None \<or> rt > 0)
                                then Some rt else rate_per_mile acc1),
                 rate_per_minute :=
                   (case parsed ''rate_per_minute'' of None \<Rightarrow> rate_per_minute acc1
                    | Some rt \<Rightarrow> if rt \<noteq> 0 \<and> (rate_per_minute acc1 = None \<or> rt > 0)
                                then Some rt else rate_per_minute acc1)\<rparr>))"

fun fare_loop ::
  "(str \<Rightarrow> rat option) \<Rightarrow> fare_acc \<Rightarrow> (str \<times> str \<times> str) list \<Rightarrow> exn + fare_acc" where
  "fare_loop value_float acc [] = Inr acc"
| "fare_loop value_float acc (item # items) =
     (case fare_step value_float acc item of
        Inl err \<Rightarrow> Inl err
      | Inr acc' \<Rightarrow> fare_loop value_float acc' items)"



subsection \<open>The checkpoint file and the CSV file\<close>

text \<open>
  A text file is its content, \<open>None\<close> when it does not exist.  Reading in text mode turns
  \<open>\r\n\<close> and \<open>\r\<close> into \<open>\n\<close>; iterating over the file gives the lines with their \<open>\n\<close>.
\<close>

fun universal_newlines :: "str \<Rightarrow> str" where
  "universal_newlines [] = []"
| "universal_newlines [x] = [if x = 13 then 10 else x]"
| "universal_newlines (x # y # r) =
     (if x = 13 \<and> y = 10 then 10 # universal_newlines r
      else if x = 13 then 10 # universal_newlines (y # r)
      else x # universal_newlines (y # r))"

fun file_lines :: "str \<Rightarrow> str list" where
  "file_lines [] = []"
| "file_lines (x # xs) =
     (if x = 10 then [10] # file_lines xs
      else (case file_lines xs of [] \<Rightarrow> [[x]] | l # ls \<Rightarrow> (x # l) # ls))"

text \<open>\<open>fetch_visited\<close>, lines 307-316, and \<open>append_visited\<close>, lines 319-322.\<close>

definition fetch_visited :: "str option \<Rightarrow> str set" where
  "fetch_visited f =
     (case f of
        None \<Rightarrow> {}
      | Some content \<Rightarrow>
          set (filter (\<lambda>trip_id. trip_id \<noteq> [])
                 (map py_strip (file_lines (universal_newlines content)))))"

definition append_visited :: "str \<Rightarrow> str option \<Rightarrow> str option" where
  "append_visited trip_id f =
     Some ((case f of None \<Rightarrow> [] | Some content \<Rightarrow> content) @ trip_id @ [10])"

text \<open>
  A cell of a row handed to \<open>csv.writer\<close>: a string, a number or \<open>None\<close>, or the fare
  breakdown that \<open>json.dumps\<close> serialises.  A CSV file is the list of the rows written.
\<close>

datatype cell = Str str | Num "rat option" | Json "(str \<times> rat option \<times> str) list"

definition header_row :: "cell list" where
  "header_row = map (\<lambda>s. Str (asc s))
     [''ride_id'', ''date_local'', ''pickup_time_local'', ''dropoff_time_local'',
      ''event_type'', ''distance_miles'', ''total_trip_time_minutes'', ''pickup_location'',
      ''dropoff_location'', ''fare_breakdown_json'', ''rate_per_mile'', ''rate_per_minute'',
      ''total_fare'']"

definition write_csv_header_if_needed :: "cell list list option \<Rightarrow> cell list list option" where
  "write_csv_header_if_needed f = (case f of None \<Rightarrow> Some [header_row] | Some rows \<Rightarrow> Some rows)"

definition append_trip_row :: "cell list \<Rightarrow> cell list list option \<Rightarrow> cell list list option" where
  "append_trip_row row f = Some ((case f of None \<Rightarrow> [] | Some rows \<Rightarrow> rows) @ [row])"

subsection \<open>Scraping one trip and all trips\<close>

text \<open>
  The state of a run: the set \<open>visited\<close> held in memory, shared by all calls, and the two
  files.
\<close>

record run_state =
  visited :: "str set"
  csv :: "cell list list option"
  checkpoint :: "str option"

text \<open>
  What a trip page gives to \<open>scrape_trip_details\<close> (lines 374-384): the six texts, \<open>None\<close>
  where \<open>text_content\<close> returns \<open>None\<close>, and the three lists of the fare items.  A page
  that fails to load or to answer is an exception instead.
\<close>

record page_data =
  date_elem :: "str option"
  pickup_time :: "str option"
  dropoff_time :: "str option"
  event_type :: "str option"
  pickup_loc :: "str option"
  dropoff_loc :: "str option"
  labels :: "str list"
  vals :: "str list"
  details :: "str list"

text \<open>\<open>trip_link.split("/")[-1].split("?")[0]\<close>, line 356.\<close>

definition trip_id_of :: "str \<Rightarrow> str" where
  "trip_id_of trip_link = takeWhile (\<lambda>c. c \<noteq> 63) (rev (takeWhile (\<lambda>c. c \<noteq> 47) (rev trip_link)))"

definition strip_or_empty :: "str option \<Rightarrow> str" where
  "strip_or_empty x = (case x of None \<Rightarrow> [] | Some s \<Rightarrow> py_strip s)"

text \<open>The row of lines 415-429.\<close>

definition trip_row :: "str \<Rightarrow> page_data \<Rightarrow> fare_acc \<Rightarrow> cell list" where
  "trip_row trip_id pg acc =
     [Str trip_id,
      Str (strip_or_empty (date_elem pg)),
      Str (strip_or_empty (pickup_time pg)),
      Str (strip_or_empty (dropoff_time pg)),
      Str (strip_or_empty (event_type pg)),
      Num (distance_miles acc),
      Num (total_trip_minutes acc),
      Str (strip_or_empty (pickup_loc pg)),
      Str (strip_or_empty (dropoff_loc pg)),
      Json (fare_breakdown acc),
      Num (rate_per_mile acc),
      Num (rate_per_minute acc),
      Num (Some (total_fare acc))]"

text \<open>
  \<open>scrape_trip_details\<close>, lines 354-434.  The result is the new state and the exception
  that left the function, if any.  The exceptions of the page and of the parser arise
  before the first write, so a call that raises leaves the state as it was; failures of
  the two writes and of closing the page are not modelled.
\<close>

definition scrape_trip_details ::
  "(str \<Rightarrow> rat option) \<Rightarrow> exn + page_data \<Rightarrow> str \<Rightarrow> run_state \<Rightarrow> run_state \<times> exn option"
where
  "scrape_trip_details value_float page trip_link st =
     (let trip_id = trip_id_of trip_link
      in if trip_id \<in> visited st then (st, None)
         else case page of
           Inl err \<Rightarrow> (st, Some err)
         | Inr pg \<Rightarrow>
             (case fare_loop value_float init_acc (zip (labels pg) (zip (vals pg) (details pg))) of
                Inl err \<Rightarrow> (st, Some err)
              | Inr acc \<Rightarrow>
                  let row = trip_row trip_id pg acc
                  in (st\<lparr>csv := append_trip_row row (csv st),
                          checkpoint := append_visited trip_id (checkpoint st)\<rparr>, None)))"

text \<open>
  \<open>scrape_all_trips\<close>, lines 437-479, from the point where the first week is shown.  A week
  is the list of its trip links, each with what its page gives; the weeks are listed in
  the order in which the \<open>Previous\<close> button shows them, and the loop ends when the button is
  no longer there.  An exception of \<open>scrape_trip_details\<close> is printed and the loop goes on
  (lines 463-466).
\<close>

definition scrape_week ::
  "(str \<Rightarrow> rat option) \<Rightarrow> (str \<times> (exn + page_data)) list \<Rightarrow> run_state \<Rightarrow> run_state" where
  "scrape_week value_float trip_links st =
     fold (\<lambda>(link, page) st. fst (scrape_trip_details value_float page link st)) trip_links st"

definition scrape_all_trips ::
  "(str \<Rightarrow> rat option) \<Rightarrow> (str \<times> (exn + page_data)) list list
     \<Rightarrow> cell list list option \<Rightarrow> str option \<Rightarrow> run_state" where
  "scrape_all_trips value_float weeks csv_file checkpoint_file =
     fold (scrape_week value_float) weeks
       \<lparr>visited = fetch_visited checkpoint_file,
        csv = write_csv_header_if_needed csv_file,
        checkpoint = checkpoint_file\<rparr>"

text \<open>
  The identifier in the first cell of a row, and the trip identifiers for which marking
  is followed by membership: not empty, no white space at either end, no line break
  inside.  A checkpoint file is well formed when it is absent, empty or ends with \<open>\n\<close>.
\<close>

definition row_id :: "cell list \<Rightarrow> str option" where
  "row_id row = (case row of Str i # _ \<Rightarrow> Some i | _ \<Rightarrow> None)"

definition clean_id :: "str \<Rightarrow> bool" where
  "clean_id x = (x \<noteq> [] \<and> \<not> py_isspace (hd x) \<and> \<not> py_isspace (last x)
                 \<and> 10 \<notin> set x \<and> 13 \<notin> set x)"

definition line_terminated :: "str option \<Rightarrow> bool" where
  "line_terminated f = (case f of None \<Rightarrow> True | Some c \<Rightarrow> c = [] \<or> last c = 10)"

definition rows_of :: "'a list option \<Rightarrow> 'a list" where
  "rows_of f = (case f of None \<Rightarrow> [] | Some rows \<Rightarrow> rows)"

text \<open>A trip page without fare items, and two links, for the examples.\<close>

definition bare_page :: page_data where
  "bare_page = \<lparr>date_elem = None, pickup_time = None, dropoff_time = None, event_type = None,
                pickup_loc = None, dropoff_loc = None, labels = [], vals = [], details = []\<rparr>"

definition link_t1 :: str where
  "link_t1 = asc ''https://drivers.uber.com/earnings/trips/t1?src=list''"

definition link_t2 :: str where
  "link_t2 = asc ''https://drivers.uber.com/earnings/trips/t2''"

definition link_slash :: str where
  "link_slash = asc ''https://drivers.uber.com/earnings/trips/''"

section \<open>The CSV ledger of the merged scraper (uber\_scraper\_merged.py)\<close>

text \<open>
  \<open>HEADERS\<close>, lines 25-31.
\<close>

definition HEADERS :: "str list" where
  "HEADERS = map asc
    [''Date'', ''Time'', ''Ride Type'', ''Distance Pay'', ''Time Pay'', ''Surge'', ''Promotion'',
     ''Base'', ''Fare (subtotal)'', ''Tip'', ''Minimum Fare Supplement'', ''Wait Time Pay'',
     ''Region/City Fee'', ''Airport Fee'', ''Insurance & Operational Fee'', ''Uber Service Fee'',
     ''Points Earned'', ''City'', ''Pickup Address'', ''Dropoff Address'', ''Distance (mi)'',
     ''Duration (min)'', ''$/mile'', ''$/min'', ''Total Earnings'', ''Total Customer Fare'']"

text \<open>
  The object returned by \<open>extract_trip_data\<close> (line 122): 26 string-valued fields, in the
  order of the return statement.
\<close>

record trip =
  date :: str
  time :: str
  rideType :: str
  distancePay :: str
  timePay :: str
  surge :: str
  promotion :: str
  base :: str
  fare :: str
  tip :: str
  minFare :: str
  waitTime :: str
  regionFee :: str
  airportFee :: str
  insuranceFee :: str
  uberFee :: str
  points :: str
  city :: str
  pickup :: str
  dropoff :: str
  distance :: str
  durationMin :: str
  perMile :: str
  perMin :: str
  totalEarnings :: str
  customerFare :: str

text \<open>
  A CSV file is the list of the rows written to it by \<open>csv.writer.writerow\<close>, each row the
  list of its cells; \<open>None\<close> is a path at which no file exists.
\<close>

type_synonym csv_file = "str list list option"

text \<open>The row that \<open>save_csv\<close> writes for one trip (lines 226-230).\<close>

definition csv_row :: "trip \<Rightarrow> str list" where
  "csv_row t = [date t, time t, rideType t, distancePay t, timePay t,
                surge t, promotion t, base t, fare t, tip t, minFare t,
                waitTime t, regionFee t, airportFee t, insuranceFee t, uberFee t,
                points t, city t, pickup t, dropoff t, distance t, durationMin t,
                perMile t, perMin t, totalEarnings t, customerFare t]"

text \<open>
  \<open>save_csv\<close>, lines 216-230: nothing happens for an empty list of trips; otherwise the
  file is opened for appending (which creates it), the header is written when the path did
  not exist before the call, and one row per trip follows.
\<close>

definition save_csv :: "trip list \<Rightarrow> csv_file \<Rightarrow> csv_file" where
  "save_csv trips f =
     (if trips = [] then f
      else let exists = (f \<noteq> None);
               old = (case f of None \<Rightarrow> [] | Some rows \<Rightarrow> rows)
           in Some (old @ (if \<not> exists then [HEADERS] else []) @ map csv_row trips))"

text \<open>A sequence of calls on the same path, possibly spread over several runs.\<close>

definition save_all :: "trip list list \<Rightarrow> csv_file \<Rightarrow> csv_file" where
  "save_all calls f = fold save_csv calls f"

section \<open>The week loop of the backward scraper (uber\_scraper\_merged.py, uber\_scraper\_weekloop\_test.py)\<close>

text \<open>
  What one pass of the \<open>while True\<close> loop of \<open>main\<close> (lines 292-373) meets: what the
  challenge check, \<open>click_load_more\<close> and \<open>get_trip_urls\<close> give (the trip URLs, each with
  what opening and extracting it gives, or an exception), what going back to the
  activities page and \<open>click_previous_week\<close> give, the operator's answer to the prompt of
  this pass if there is one, and the exception, if any, of the navigation that the
  \<open>skip\<close> answer triggers inside the handler.
\<close>

record week_obs =
  loaded :: "exn + (str \<times> (exn + trip)) list"
  nav :: "exn + bool"
  resp :: str
  skip_nav :: "exn option"

text \<open>
  The variables of the loop, and \<open>opened\<close>, the URLs given to \<open>page.goto\<close> at line 328, in
  order.
\<close>

record loop_state =
  week_num :: int
  empty_streak :: nat
  total :: nat
  output_csv :: csv_file
  opened :: "str list"

datatype outcome = Done | Stopped | Crashed exn | Pending

datatype ctl = Continue | Break outcome

text \<open>\<open>resp.lower() == 'stop'\<close>.\<close>

definition lower_is_stop :: "str \<Rightarrow> bool" where
  "lower_is_stop r = (map (\<lambda>c. if 65 \<le> c \<and> c \<le> 90 then c + 32 else c) r = asc ''stop'')"

text \<open>The handler of lines 362-373.\<close>

definition on_error :: "week_obs \<Rightarrow> loop_state \<Rightarrow> ctl \<times> loop_state" where
  "on_error ob st =
     (if resp ob = asc ''stop'' then (Break Stopped, st)
      else if resp ob = asc ''skip''
      then (case skip_nav ob of Some err \<Rightarrow> (Break (Crashed err), st) | None \<Rightarrow> (Continue, st))
      else (Continue, st\<lparr>week_num := week_num st - 1\<rparr>))"

text \<open>The trips that the loop of lines 323-341 appends: those of the URLs that raise nothing.\<close>

definition scraped :: "(str \<times> (exn + trip)) list \<Rightarrow> trip list" where
  "scraped urls = concat (map (\<lambda>(url, r). case r of Inl err \<Rightarrow> [] | Inr t \<Rightarrow> [t]) urls)"

text \<open>The body of the loop, lines 293-360.\<close>

definition week_pass :: "week_obs \<Rightarrow> loop_state \<Rightarrow> ctl \<times> loop_state" where
  "week_pass ob st0 =
     (let st = st0\<lparr>week_num := week_num st0 + 1\<rparr>
      in case loaded ob of
           Inl err \<Rightarrow> on_error ob st
         | Inr urls \<Rightarrow>
             if urls = [] \<and> empty_streak st + 1 \<ge> 3
             then (Break Done, st\<lparr>empty_streak := empty_streak st + 1\<rparr>)
             else
               let st1 = st\<lparr>empty_streak := (if urls = [] then empty_streak st + 1 else 0),
                             opened := opened st @ map fst urls\<rparr>;
                   trips = scraped urls;
                   st2 = (if trips \<noteq> []
                          then st1\<lparr>output_csv := save_csv trips (output_csv st1),
                                   total := total st1 + length trips\<rparr>
                          else st1)
               in case nav ob of
                    Inl err \<Rightarrow> on_error ob st2
                  | Inr True \<Rightarrow> (Continue, st2)
                  | Inr False \<Rightarrow>
                      if lower_is_stop (resp ob) then (Break Stopped, st2) else (Continue, st2))"

text \<open>
  The loop over the passes that the run meets.  \<open>Pending\<close> is the loop still running when
  the listed passes are over; otherwise the result has the reason of the exit and the
  passes that were never started.
\<close>

fun week_loop :: "week_obs list \<Rightarrow> loop_state \<Rightarrow> outcome \<times> loop_state \<times> week_obs list" where
  "week_loop [] st = (Pending, st, [])"
| "week_loop (ob # obs) st =
     (case week_pass ob st of
        (Continue, st') \<Rightarrow> week_loop obs st'
      | (Break out, st') \<Rightarrow> (out, st', obs))"

text \<open>
  The loop of the navigation test (uber\_scraper\_weekloop\_test.py, lines 120-150): the same
  counting, no scraping and no handler, so an exception ends the run.
\<close>

definition test_pass :: "week_obs \<Rightarrow> loop_state \<Rightarrow> ctl \<times> loop_state" where
  "test_pass ob st0 =
     (let st = st0\<lparr>week_num := week_num st0 + 1\<rparr>
      in case loaded ob of
           Inl err \<Rightarrow> (Break (Crashed err), st)
         | Inr urls \<Rightarrow>
             if urls = [] \<and> empty_streak st + 1 \<ge> 3
             then (Break Done, st\<lparr>empty_streak := empty_streak st + 1\<rparr>)
             else
               let st1 = st\<lparr>empty_streak := (if urls = [] then empty_streak st + 1 else 0)\<rparr>
               in case nav ob of
                    Inl err \<Rightarrow> (Break (Crashed err), st1)
                  | Inr True \<Rightarrow> (Continue, st1)
                  | Inr False \<Rightarrow>
                      if lower_is_stop (resp ob) then (Break Stopped, st1) else (Continue, st1))"

fun test_loop :: "week_obs list \<Rightarrow> loop_state \<Rightarrow> outcome \<times> loop_state \<times> week_obs list" where
  "test_loop [] st = (Pending, st, [])"
| "test_loop (ob # obs) st =
     (case test_pass ob st of
        (Continue, st') \<Rightarrow> test_loop obs st'
      | (Break out, st') \<Rightarrow> (out, st', obs))"

text \<open>
  A week that shows the given trips, with no exception and a \<open>Previous\<close>
  button that works; and the state at the start of the loop (lines 270, 287, 288).
\<close>

definition quiet_week :: "(str \<times> (exn + trip)) list \<Rightarrow> week_obs" where
  "quiet_week urls = \<lparr>loaded = Inr urls, nav = Inr True, resp = [],
                       skip_nav = None\<rparr>"

definition start_state :: "nat \<Rightarrow> csv_file \<Rightarrow> loop_state" where
  "start_state rows f = \<lparr>week_num = 0, empty_streak = 0, total = rows, output_csv = f, opened = []\<rparr>"

section \<open>The forward scraper (uber\_scraper\_main.py)\<close>

subsection \<open>Dates\<close>

text \<open>
  A \<open>datetime\<close> is the proleptic Gregorian ordinal of its day, \<open>1\<close> for 0001-01-01 and
  \<open>3652059\<close> for 9999-12-31, and the microseconds since midnight.  The conversions between
  ordinals and year, month, day are those of Python's \<open>datetime\<close> module.
\<close>

record datetime =
  ordinal :: nat
  micros :: nat

definition MAXORDINAL :: nat where
  "MAXORDINAL = 3652059"

definition is_leap :: "nat \<Rightarrow> bool" where
  "is_leap y = (y mod 4 = 0 \<and> (y mod 100 \<noteq> 0 \<or> y mod 400 = 0))"

definition days_in_month :: "nat \<Rightarrow> nat \<Rightarrow> nat" where
  "days_in_month y m =
     (if m = 2 then (if is_leap y then 29 else 28)
      else if m = 4 \<or> m = 6 \<or> m = 9 \<or> m = 11 then 30 else 31)"

definition days_before_year :: "nat \<Rightarrow> nat" where
  "days_before_year y = (y - 1) * 365 + (y - 1) div 4 - (y - 1) div 100 + (y - 1) div 400"

definition days_before_month :: "nat \<Rightarrow> nat \<Rightarrow> nat" where
  "days_before_month y m =
     [0, 0, 31, 59, 90, 120, 151, 181, 212, 243, 273, 304, 334] ! m
       + (if m > 2 \<and> is_leap y then 1 else 0)"

definition ymd2ord :: "nat \<Rightarrow> nat \<Rightarrow> nat \<Rightarrow> nat" where
  "ymd2ord y m d = days_before_year y + days_before_month y m + d"

definition ord2ymd :: "nat \<Rightarrow> nat \<times> nat \<times> nat" where
  "ord2ymd n0 =
     (let n = n0 - 1;
          n400 = n div 146097; n = n mod 146097;
          n100 = n div 36524; n = n mod 36524;
          n4 = n div 1461; n = n mod 1461;
          n1 = n div 365; n = n mod 365;
          year = n400 * 400 + 1 + n100 * 100 + n4 * 4 + n1
      in if n1 = 4 \<or> n100 = 4 then (year - 1, 12, 31)
         else
           let leapyear = (n1 = 3 \<and> (n4 \<noteq> 24 \<or> n100 = 3));
               month = (n + 50) div 32;
               preceding = [0, 0, 31, 59, 90, 120, 151, 181, 212, 243, 273, 304, 334] ! month
                             + (if month > 2 \<and> leapyear then 1 else 0)
           in if preceding > n
              then (year, month - 1,
                    n + ([0, 31, 28, 31, 30, 31, 30, 31, 31, 30, 31, 30, 31] ! (month - 1)
                           + (if month - 1 = 2 \<and> leapyear then 1 else 0)) - preceding + 1)
              else (year, month, n - preceding + 1))"

text \<open>
  \<open>datetime(year, month, day)\<close>, which raises \<open>ValueError\<close> outside the calendar, and
  \<open>d + timedelta(days=k)\<close>, which raises \<open>OverflowError\<close> past the last day.
\<close>

definition mk_datetime :: "nat \<Rightarrow> nat \<Rightarrow> nat \<Rightarrow> datetime option" where
  "mk_datetime y m d =
     (if 1 \<le> y \<and> y \<le> 9999 \<and> 1 \<le> m \<and> m \<le> 12 \<and> 1 \<le> d \<and> d \<le> days_in_month y m
      then Some \<lparr>ordinal = ymd2ord y m d, micros = 0\<rparr> else None)"

definition add_days :: "datetime \<Rightarrow> nat \<Rightarrow> exn + datetime" where
  "add_days d k = (if ordinal d + k > MAXORDINAL then Inl OverflowError
                   else Inr (d\<lparr>ordinal := ordinal d + k\<rparr>))"

definition dt_gt :: "datetime \<Rightarrow> datetime \<Rightarrow> bool" where
  "dt_gt a b = (ordinal a > ordinal b \<or> (ordinal a = ordinal b \<and> micros a > micros b))"

definition weekday :: "datetime \<Rightarrow> nat" where
  "weekday d = (ordinal d + 6) mod 7"

definition year_of :: "datetime \<Rightarrow> nat" where
  "year_of d = fst (ord2ymd (ordinal d))"

definition month_of :: "datetime \<Rightarrow> nat" where
  "month_of d = fst (snd (ord2ymd (ordinal d)))"

definition day_of :: "datetime \<Rightarrow> nat" where
  "day_of d = snd (snd (ord2ymd (ordinal d)))"

text \<open>\<open>str\<close> of a natural number, and \<open>strftime('%b')\<close>.\<close>

fun show_nat :: "nat \<Rightarrow> str" where
  "show_nat n = (if n < 10 then [48 + n] else show_nat (n div 10) @ [48 + n mod 10])"

declare show_nat.simps [simp del]

definition month_names :: "string list" where
  "month_names = [''Jan'', ''Feb'', ''Mar'', ''Apr'', ''May'', ''Jun'',
                  ''Jul'', ''Aug'', ''Sep'', ''Oct'', ''Nov'', ''Dec'']"

definition month_abbr :: "nat \<Rightarrow> str" where
  "month_abbr m = asc (month_names ! (m - 1))"

text \<open>\<open>get_monday\<close>, lines 170-172, and \<open>format_week_range\<close>, lines 175-178.\<close>

definition get_monday :: "datetime \<Rightarrow> datetime" where
  "get_monday d = d\<lparr>ordinal := ordinal d - weekday d\<rparr>"

definition format_date :: "datetime \<Rightarrow> str" where
  "format_date d = month_abbr (month_of d) @ asc '' '' @ show_nat (day_of d) @ asc '', ''
                     @ show_nat (year_of d)"

definition format_week_range :: "datetime \<Rightarrow> exn + str" where
  "format_week_range monday =
     (case add_days monday 7 of
        Inl err \<Rightarrow> Inl err
      | Inr end \<Rightarrow> Inr (format_date monday @ asc '' '' @ [8211] @ asc '' '' @ format_date end))"

definition ymd :: "nat \<Rightarrow> nat \<Rightarrow> nat \<Rightarrow> datetime" where
  "ymd y m d = \<lparr>ordinal = ymd2ord y m d, micros = 0\<rparr>"

subsection \<open>The start date prompt\<close>

text \<open>
  \<open>datetime.strptime\<close> turns a format into a regular expression, matches it at the start
  of the text under \<open>IGNORECASE\<close>, refuses text left over, and builds the date from the
  groups, the year being \<open>1900\<close> when the format has none.  A format is the list of its
  directives \<open>%b\<close>, \<open>%d\<close>, \<open>%m\<close>, \<open>%Y\<close>, \<open>%y\<close>, its literal characters and its white space,
  which stands for \<open>\s+\<close>.
\<close>

datatype tok = Pb | Pd | Pm | PY | Py | Lit string | Ws

fun alts :: "item list list \<Rightarrow> item list" where
  "alts [] = []"
| "alts [a] = a"
| "alts (a # b # r) = [Alt a (alts (b # r))]"

definition re_b :: "item list" where
  "re_b = [Open] @ alts (map litsI [''jan'', ''feb'', ''mar'', ''apr'', ''may'', ''jun'',
                                     ''jul'', ''aug'', ''sep'', ''oct'', ''nov'', ''dec''])
            @ [Close]"

definition re_d :: "item list" where
  "re_d = [Open] @ alts [[C (Ch 51), C (Range 48 49)], [C (Range 49 50), C Digit],
                          [C (Ch 48), C (Range 49 57)], [C (Range 49 57)],
                          [C (Ch 32), C (Range 49 57)]] @ [Close]"

definition re_m :: "item list" where
  "re_m = [Open] @ alts [[C (Ch 49), C (Range 48 50)], [C (Ch 48), C (Range 49 57)],
                          [C (Range 49 57)]] @ [Close]"

definition re_Y :: "item list" where
  "re_Y = [Open, C Digit, C Digit, C Digit, C Digit, Close]"

definition re_y :: "item list" where
  "re_y = [Open, C Digit, C Digit, Close]"

fun tok_re :: "tok \<Rightarrow> item list" where
  "tok_re Pb = re_b"
| "tok_re Pd = re_d"
| "tok_re Pm = re_m"
| "tok_re PY = re_Y"
| "tok_re Py = re_y"
| "tok_re (Lit s) = lits s"
| "tok_re Ws = many1 PySpace"

definition format_re :: "tok list \<Rightarrow> item list" where
  "format_re fmt = concat (map tok_re fmt)"

definition is_directive :: "tok \<Rightarrow> bool" where
  "is_directive t = (case t of Lit s \<Rightarrow> False | Ws \<Rightarrow> False | _ \<Rightarrow> True)"

text \<open>\<open>int\<close> on a group, and the index of a month name; \<open>None\<close> is the \<open>ValueError\<close> of \<open>list.index\<close>.\<close>

definition int_of :: "str \<Rightarrow> nat" where
  "int_of g = dec (filter is_digit g)"

definition ascii_lower :: "str \<Rightarrow> str" where
  "ascii_lower s = map (\<lambda>c. if 65 \<le> c \<and> c \<le> 90 then c + 32 else c) s"

fun index_of :: "'a \<Rightarrow> 'a list \<Rightarrow> nat option" where
  "index_of x [] = None"
| "index_of x (y # ys) = (if x = y then Some 0 else map_option Suc (index_of x ys))"

definition month_number :: "str \<Rightarrow> nat option" where
  "month_number g = map_option Suc (index_of (ascii_lower g) (map (\<lambda>n. ascii_lower (asc n)) month_names))"

text \<open>The year, month and day found so far, and what a directive makes of its group.\<close>

fun assign :: "tok \<times> str \<Rightarrow> (nat \<times> nat \<times> nat) option \<Rightarrow> (nat \<times> nat \<times> nat) option" where
  "assign (t, g) None = None"
| "assign (t, g) (Some (y, m, d)) =
     (case t of
        Pb \<Rightarrow> (case month_number g of None \<Rightarrow> None | Some k \<Rightarrow> Some (y, k, d))
      | Pd \<Rightarrow> Some (y, m, int_of g)
      | Pm \<Rightarrow> Some (y, int_of g, d)
      | PY \<Rightarrow> Some (int_of g, m, d)
      | Py \<Rightarrow> Some (if int_of g \<le> 68 then 2000 + int_of g else 1900 + int_of g, m, d)
      | _ \<Rightarrow> Some (y, m, d))"

definition strptime :: "str \<Rightarrow> tok list \<Rightarrow> datetime option" where
  "strptime s fmt =
     (case rx (format_re fmt) 0 s None [] of
        None \<Rightarrow> None
      | Some (e, gs) \<Rightarrow>
          if e \<noteq> length s then None
          else (case fold assign (zip (filter is_directive fmt) gs) (Some (1900, 1, 1)) of
                  None \<Rightarrow> None
                | Some (y, m, d) \<Rightarrow> mk_datetime y m d))"

text \<open>The formats of line 267, in order.\<close>

definition formats :: "tok list list" where
  "formats = [[Pb, Ws, Pd, Lit '','', Ws, PY],
              [Pb, Ws, Pd, Ws, PY],
              [Pb, Ws, Pd],
              [PY, Lit ''-'', Pm, Lit ''-'', Pd],
              [Pm, Lit ''/'', Pd, Lit ''/'', PY],
              [Pm, Lit ''/'', Pd, Lit ''/'', Py],
              [Pm, Lit ''-'', Pd, Lit ''-'', PY]]"

definition has_year :: "tok list \<Rightarrow> bool" where
  "has_year fmt = (PY \<in> set fmt \<or> Py \<in> set fmt)"

text \<open>\<open>parsed.replace(year=y)\<close>, a \<open>ValueError\<close> when the day does not exist in that year.\<close>

definition replace_year :: "datetime \<Rightarrow> nat \<Rightarrow> datetime option" where
  "replace_year d y =
     map_option (\<lambda>r. r\<lparr>micros := micros d\<rparr>) (mk_datetime y (month_of d) (day_of d))"

text \<open>
  The loop of lines 267-275: the first format that parses is used.  The variable
  \<open>parsed\<close> keeps what \<open>strptime\<close> gave when \<open>replace\<close> raises.
\<close>

fun try_formats :: "nat \<Rightarrow> str \<Rightarrow> tok list list \<Rightarrow> datetime option \<Rightarrow> datetime option" where
  "try_formats y s [] parsed = parsed"
| "try_formats y s (fmt # fmts) parsed =
     (case strptime s fmt of
        None \<Rightarrow> try_formats y s fmts parsed
      | Some d \<Rightarrow>
          if has_year fmt then Some d
          else (case replace_year d y of
                  None \<Rightarrow> try_formats y s fmts (Some d)
                | Some d' \<Rightarrow> Some d'))"

text \<open>
  Lines 263-285: the date the walk starts from, for the clock reading \<open>now\<close> and the
  operator's input.
\<close>

definition start_week_date :: "datetime \<Rightarrow> str \<Rightarrow> datetime" where
  "start_week_date now inp =
     get_monday
       (if inp \<noteq> []
        then (case try_formats (year_of now) (py_strip inp) formats None of
                Some parsed \<Rightarrow> parsed
              | None \<Rightarrow> now)
        else now)"

subsection \<open>The week loop\<close>

text \<open>
  What one pass of the loop of lines 294-367 meets: the clock read at line 298 and at line
  349, what loading the week gives, the exception, if any, that the browser raises while
  moving to the next week (lines 354-357), and the operator's answer to the prompt of the
  handler.
\<close>

record fwd_obs =
  now_top :: datetime
  fwd_loaded :: "exn + (str \<times> (exn + trip)) list"
  now_adv :: datetime
  fwd_nav :: "exn option"
  fwd_resp :: str

text \<open>
  What the run does for a week, each with the cursor of the week and the clock reading
  that let the pass go on: loading the week, opening a trip, saving rows.
\<close>

datatype action = LoadWeek | OpenTrip str | SaveRows nat

record fwd_state =
  week_date :: datetime
  fwd_week_num :: int
  empty :: nat
  fwd_total :: nat
  fwd_output :: csv_file
  events :: "(datetime \<times> datetime \<times> action) list"

text \<open>The handler of lines 359-367.\<close>

definition fwd_on_error :: "fwd_obs \<Rightarrow> fwd_state \<Rightarrow> ctl \<times> fwd_state" where
  "fwd_on_error ob st =
     (if fwd_resp ob = asc ''stop'' then (Break Stopped, st)
      else if fwd_resp ob = asc ''skip''
      then (case add_days (week_date st) 7 of
              Inl err \<Rightarrow> (Break (Crashed err), st)
            | Inr wd \<Rightarrow> (Continue, st\<lparr>week_date := wd\<rparr>))
      else (Continue, st\<lparr>fwd_week_num := fwd_week_num st - 1\<rparr>))"

text \<open>The body of the loop, lines 295-357.\<close>

definition fwd_pass :: "fwd_obs \<Rightarrow> fwd_state \<Rightarrow> ctl \<times> fwd_state" where
  "fwd_pass ob st0 =
     (let st = st0\<lparr>fwd_week_num := fwd_week_num st0 + 1\<rparr>
      in case format_week_range (week_date st) of
           Inl err \<Rightarrow> (Break (Crashed err), st)
         | Inr line \<Rightarrow>
             if dt_gt (week_date st) (now_top ob) then (Break Done, st)
             else
               let here = (\<lambda>a. (week_date st, now_top ob, a));
                   st1 = st\<lparr>events := events st @ [here LoadWeek]\<rparr>
               in case fwd_loaded ob of
                    Inl err \<Rightarrow> fwd_on_error ob st1
                  | Inr urls \<Rightarrow>
                      if urls = [] \<and> empty st1 + 1 \<ge> 3
                      then (Break Done, st1\<lparr>empty := empty st1 + 1\<rparr>)
                      else
                        let st2 = st1\<lparr>empty := (if urls = [] then empty st1 + 1 else 0),
                                      events := events st1 @ map (\<lambda>(u, r). here (OpenTrip u)) urls\<rparr>;
                            trips = scraped urls;
                            st3 = (if trips \<noteq> []
                                   then st2\<lparr>fwd_output := save_csv trips (fwd_output st2),
                                            fwd_total := fwd_total st2 + length trips,
                                            events := events st2 @ [here (SaveRows (length trips))]\<rparr>
                                   else st2)
                        in case add_days (week_date st3) 7 of
                             Inl err \<Rightarrow> fwd_on_error ob st3
                           | Inr wd \<Rightarrow>
                               let st4 = st3\<lparr>week_date := wd\<rparr>
                               in if dt_gt wd (now_adv ob) then (Break Done, st4)
                                  else (case fwd_nav ob of
                                          Some err \<Rightarrow> fwd_on_error ob st4
                                        | None \<Rightarrow>
                                            (case format_week_range wd of
                                               Inl err \<Rightarrow> fwd_on_error ob st4
                                             | Inr line' \<Rightarrow> (Continue, st4))))"

fun fwd_loop :: "fwd_obs list \<Rightarrow> fwd_state \<Rightarrow> outcome \<times> fwd_state \<times> fwd_obs list" where
  "fwd_loop [] st = (Pending, st, [])"
| "fwd_loop (ob # obs) st =
     (case fwd_pass ob st of
        (Continue, st') \<Rightarrow> fwd_loop obs st'
      | (Break out, st') \<Rightarrow> (out, st', obs))"

text \<open>No event of the log is for a week whose cursor is after the clock reading.\<close>

definition no_future_event :: "(datetime \<times> datetime \<times> action) list \<Rightarrow> bool" where
  "no_future_event evs = list_all (\<lambda>(wd, now, a). \<not> dt_gt wd now) evs"

text \<open>A clock reading for the examples: 15 March 2024, a Friday, at 10:00.\<close>

definition now_mar_15 :: datetime where
  "now_mar_15 = \<lparr>ordinal = ymd2ord 2024 3 15, micros = 36000000000\<rparr>"

definition at_10 :: "datetime \<Rightarrow> datetime" where
  "at_10 d = d\<lparr>micros := 36000000000\<rparr>"

definition fwd_start :: "datetime \<Rightarrow> fwd_state" where
  "fwd_start wd = \<lparr>week_date = wd, fwd_week_num = 0, empty = 0, fwd_total = 0,
                   fwd_output = None, events = []\<rparr>"

definition fwd_quiet :: "datetime \<Rightarrow> (str \<times> (exn + trip)) list \<Rightarrow> fwd_obs" where
  "fwd_quiet now urls = \<lparr>now_top = now, fwd_loaded = Inr urls, now_adv = now, fwd_nav = None,
                          fwd_resp = []\<rparr>"

section \<open>The trip detail extractor (extract\_trip\_data of uber\_scraper\_merged.py)\<close>

text \<open>
  What the script of lines 40-125 reads from the document: the text of the first element
  that \<open>[class*="trip"] span, [class*="list"] span\<close> selects, if there is one; the text and
  the number of children of every element, in document order; the inner text of the
  body, which every parsed HTML document has; the texts of the \<open>li\<close> elements; and the text
  of the first \<open>h1, h2, [class*="heading"]\<close>, if there is one.
\<close>

record dom_page =
  header_span :: "str option"
  elements :: "(str \<times> nat) list"
  body_text :: str
  list_items :: "str list"
  heading :: "str option"

text \<open>
  \<open>String.prototype.includes\<close>, \<open>replace\<close> with a string pattern (the first occurrence only),
  and the filter \<open>(v, i, a) => a.indexOf(v) === i\<close>, which keeps first occurrences.
\<close>

fun is_prefix :: "str \<Rightarrow> str \<Rightarrow> bool" where
  "is_prefix [] s = True"
| "is_prefix (c # cs) [] = False"
| "is_prefix (c # cs) (x # xs) = (c = x \<and> is_prefix cs xs)"

fun js_includes :: "str \<Rightarrow> str \<Rightarrow> bool" where
  "js_includes [] w = is_prefix w []"
| "js_includes (x # xs) w = (is_prefix w (x # xs) \<or> js_includes xs w)"

fun replace_first :: "str \<Rightarrow> str \<Rightarrow> str \<Rightarrow> str" where
  "replace_first [] w r = (if w = [] then r else [])"
| "replace_first (x # xs) w r =
     (if is_prefix w (x # xs) then r @ drop (length w) (x # xs)
      else x # replace_first xs w r)"

fun first_seen :: "'a list \<Rightarrow> 'a list \<Rightarrow> 'a list" where
  "first_seen seen [] = []"
| "first_seen seen (x # xs) =
     (if x \<in> set seen then first_seen seen xs else x # first_seen (x # seen) xs)"

text \<open>
  \<open>(m + s / 60).toFixed(2)\<close>: the nearest number with two decimals, the larger one on a tie.
  The arithmetic is exact; the rounding of doubles, and the exponent notation that
  \<open>toFixed\<close> uses from \<open>1e21\<close> on, are not modelled.
\<close>

definition to_fixed2 :: "rat \<Rightarrow> str" where
  "to_fixed2 x =
     (let n = nat \<lfloor>x * 100 + 1 / 2\<rfloor>
      in show_nat (n div 100) @ [46, 48 + (n mod 100) div 10, 48 + n mod 10])"

text \<open>The patterns of the script, in the order of their first use.\<close>

definition amount :: "item list" where
  "amount = [Open] @ many1 Digit @ [opt (Ch 46), Star Digit, Close]"

definition header_re :: "item list" where
  "header_re = [Open, C JsDot, LazyStar JsDot, Close, Star JsSpace, C (Ch 8226), Star JsSpace,
                Open, C JsDot, LazyStar JsDot, Close, Star JsSpace, C (Ch 8226), Star JsSpace,
                Open, C JsDot, Star JsDot, Close]"

definition distance_re :: "item list" where
  "distance_re = [Bol] @ many1 Digit @ [C (Ch 46)] @ many1 Digit @ [Star JsSpace] @ lits ''mi''
                   @ [Eol]"

definition city_re :: "item list" where
  "city_re = lits '','' @ [Star JsSpace, Open] @ many1 (Not (Ch 44)) @ [Close] @ lits '',''
               @ [Star JsSpace, C (Range 65 90), C (Range 65 90)] @ lits '','' @ [Star JsSpace]
               @ lits ''US''"

definition points_re :: "item list" where
  "points_re = [Bol] @ many1 Digit @ [Star JsSpace] @ lits ''point'' @ [opt (Ch 115), Star JsSpace]
                 @ lits ''earned'' @ [Eol]"

definition digits_re :: "item list" where
  "digits_re = [Open] @ many1 Digit @ [Close]"

definition per_mile_re :: "item list" where
  "per_mile_re = lits ''$'' @ [Open] @ many1 Digit @ [C (Ch 46)] @ many1 Digit @ [Close]
                   @ lits ''/mile''"

definition per_min_re :: "item list" where
  "per_min_re = lits ''$'' @ [Open] @ many1 Digit @ [C (Ch 46)] @ many1 Digit @ [Close]
                  @ lits ''/min''"

definition value_re :: "item list" where
  "value_re = lits ''$'' @ amount"

definition fare_start_re :: "item list" where
  "fare_start_re = [Bol] @ lits ''Fare'' @ [Star JsSpace] @ lits ''$''"

definition fare_re :: "item list" where
  "fare_re = lits ''Fare'' @ [Star JsSpace] @ lits ''$'' @ amount"

definition region_re :: "item list" where
  "region_re = lits ''Region or City Fee'' @ [Star (Not (Ch 45))] @ lits ''-$'' @ amount"

definition airport_re :: "item list" where
  "airport_re = lits ''Airport Fee'' @ [Star (Not (Ch 45))] @ lits ''-$'' @ amount"

definition insurance_re :: "item list" where
  "insurance_re = litsJ ''insurance and operational'' @ [Star (Not (Ch 45))] @ lits ''-$''
                    @ amount"

definition uber_re :: "item list" where
  "uber_re = lits ''Uber Service Fee'' @ [Star (Not (Ch 36))] @ lits ''$'' @ amount"

definition customer_re :: "item list" where
  "customer_re = lits ''Total customer fare'' @ [Star (Not (Ch 36))] @ lits ''$'' @ amount"

definition tip_included_re :: "item list" where
  "tip_included_re = lits ''$'' @ amount @ [Star JsSpace] @ lits ''tip included''"

definition duration_re :: "item list" where
  "duration_re = [Open] @ many1 Digit @ [Close, Star JsSpace] @ lits ''min'' @ [Star JsSpace, Open]
                   @ many1 Digit @ [Close, Star JsSpace] @ lits ''sec''"

text \<open>
  \<open>s.match(re)\<close> is \<open>null\<close> or the groups of the first match; \<open>group_or\<close> is the idiom
  \<open>m ? m[1] : d\<close>.
\<close>

definition js_match :: "str \<Rightarrow> item list \<Rightarrow> str list option" where
  "js_match s re = map_option snd (search re 0 s)"

definition group_or :: "str list option \<Rightarrow> str \<Rightarrow> str" where
  "group_or m d = (case m of None \<Rightarrow> d | Some gs \<Rightarrow> (case gs of [] \<Rightarrow> d | g # _ \<Rightarrow> g))"

text \<open>
  The callback of \<open>items.forEach\<close>, lines 81-97, on the variables of the script, which are
  held in the record that is returned at the end.
\<close>

definition sweep_item :: "str \<Rightarrow> trip \<Rightarrow> trip" where
  "sweep_item text t0 =
     (let value = group_or (js_match text value_re) (asc ''0'');
          t1 = (if js_includes text (asc ''Base'') \<and> \<not> js_includes text (asc ''Fare'')
                then t0\<lparr>base := value\<rparr> else t0);
          t2 = (if js_includes text (asc ''Distance'') \<and> js_includes text (asc ''mile'')
                then t1\<lparr>distancePay := value\<rparr> else t1);
          t3 = (if js_includes text (asc ''Time'') \<and> js_includes text (asc ''minute'')
                then t2\<lparr>timePay := value\<rparr> else t2);
          t4 = (if js_includes text (asc ''Surge'') then t3\<lparr>surge := value\<rparr> else t3);
          t5 = (if js_includes text (asc ''Promotion'') then t4\<lparr>promotion := value\<rparr> else t4);
          t6 = (if js_includes text (asc ''Minimum Fare'') then t5\<lparr>minFare := value\<rparr> else t5);
          t7 = (if js_includes text (asc ''Wait Time'') then t6\<lparr>waitTime := value\<rparr> else t6);
          t8 = (if js_match text fare_start_re \<noteq> None
                   \<or> (js_includes text (asc ''Fare'') \<and> \<not> js_includes text (asc ''customer'')
                       \<and> \<not> js_includes text (asc ''Minimum''))
                then (case js_match text fare_re of
                        None \<Rightarrow> t7
                      | Some gs \<Rightarrow> t7\<lparr>fare := group_or (Some gs) []\<rparr>)
                else t7);
          t9 = (if js_includes text (asc ''Your earnings'') \<and> \<not> js_includes text (asc ''Total'')
                then t8\<lparr>totalEarnings := value\<rparr> else t8)
      in if js_includes text (asc ''Tip'') \<and> \<not> js_includes text (asc ''included'')
         then t9\<lparr>tip := value\<rparr> else t9)"

text \<open>
  The script, lines 40-125, in its own order and in steps.  First the texts read from the
  elements: the duration (lines 47-49) and the points (lines 65-67), whose
  \<open>match(/(\d+)/)[1]\<close> is the only expression of the script that can throw, a \<open>TypeError\<close> if
  the match were \<open>null\<close>.
\<close>

definition duration_text :: "dom_page \<Rightarrow> str" where
  "duration_text page =
     (let durationEl = find (\<lambda>(text, children). js_includes text (asc ''min'')
                              \<and> js_includes text (asc ''sec'') \<and> children = 0) (elements page)
      in case durationEl of None \<Rightarrow> [] | Some (text, children) \<Rightarrow> js_trim text)"

definition points_text :: "dom_page \<Rightarrow> exn + str" where
  "points_text page =
     (let pointsEl = find (\<lambda>(text, children). js_match text points_re \<noteq> None
                            \<and> children = 0) (elements page)
      in case pointsEl of
           None \<Rightarrow> Inr (asc ''0'')
         | Some (text, children) \<Rightarrow>
             (case js_match text digits_re of
                None \<Rightarrow> Inl TypeError
              | Some gs \<Rightarrow> Inr (group_or (Some gs) [])))"

text \<open>
  The constants and variables of lines 41-78, for the points already read: the header, the
  distance, the addresses, the city, the two rates, and \<open>'0'\<close> for every amount.
\<close>

definition script_vars :: "dom_page \<Rightarrow> str \<Rightarrow> trip" where
  "script_vars page pts =
     (let headerText = (case header_span page of None \<Rightarrow> [] | Some s \<Rightarrow> s);
          headerMatch = js_match headerText header_re;
          rideType = (case headerMatch of Some [g1, g2, g3] \<Rightarrow> js_trim g1 | _ \<Rightarrow> []);
          date = (case headerMatch of Some [g1, g2, g3] \<Rightarrow> js_trim g2 | _ \<Rightarrow> []);
          time = (case headerMatch of Some [g1, g2, g3] \<Rightarrow> js_trim g3 | _ \<Rightarrow> []);
          distanceEl = find (\<lambda>(text, children). js_match text distance_re \<noteq> None
                              \<and> children = 0) (elements page);
          distance = (case distanceEl of None \<Rightarrow> []
                      | Some (text, children) \<Rightarrow> js_trim (replace_first text (asc '' mi'') []));
          addresses = first_seen []
                        (map (\<lambda>(text, children). js_trim text)
                           (filter (\<lambda>(text, children). js_includes text (asc '', US'')
                                      \<and> children = 0) (elements page)));
          pickup = (case addresses of [] \<Rightarrow> [] | a # _ \<Rightarrow> a);
          dropoff = (case addresses of a # b # _ \<Rightarrow> b | _ \<Rightarrow> []);
          city = (case js_match pickup city_re of
                    None \<Rightarrow> [] | Some gs \<Rightarrow> js_trim (group_or (Some gs) []));
          allText = body_text page;
          perMile = group_or (js_match allText per_mile_re) (asc ''0'');
          perMin = group_or (js_match allText per_min_re) (asc ''0'')
      in \<lparr>date = date, time = time, rideType = rideType,
          distancePay = asc ''0'', timePay = asc ''0'', surge = asc ''0'',
          promotion = asc ''0'', base = asc ''0'', fare = asc ''0'', tip = asc ''0'',
          minFare = asc ''0'', waitTime = asc ''0'', regionFee = asc ''0'',
          airportFee = asc ''0'', insuranceFee = asc ''0'', uberFee = asc ''0'',
          points = pts, city = city, pickup = pickup, dropoff = dropoff,
          distance = distance, durationMin = asc ''0'', perMile = perMile,
          perMin = perMin, totalEarnings = asc ''0'', customerFare = asc ''0''\<rparr>)"

text \<open>The fees read from the whole text (lines 99-108).\<close>

definition fee_sweep :: "str \<Rightarrow> trip \<Rightarrow> trip" where
  "fee_sweep allText t =
     t\<lparr>regionFee := group_or (js_match allText region_re) (asc ''0''),
       airportFee := group_or (js_match allText airport_re) (asc ''0''),
       insuranceFee := group_or (js_match allText insurance_re) (asc ''0''),
       uberFee := group_or (js_match allText uber_re) (asc ''0''),
       customerFare := group_or (js_match allText customer_re) (asc ''0'')\<rparr>"

text \<open>The total in the heading (lines 110-114) and the tip in the text (lines 115-118).\<close>

definition headline_total :: "str option \<Rightarrow> trip \<Rightarrow> trip" where
  "headline_total totalEl t =
     (case totalEl of
        None \<Rightarrow> t
      | Some text \<Rightarrow>
          if js_includes text (asc ''$'')
          then (case js_match text value_re of
                  None \<Rightarrow> t
                | Some gs \<Rightarrow> t\<lparr>totalEarnings := group_or (Some gs) []\<rparr>)
          else t)"

definition tip_fallback :: "str \<Rightarrow> trip \<Rightarrow> trip" where
  "tip_fallback allText t =
     (if tip t = asc ''0''
      then (case js_match allText tip_included_re of
              None \<Rightarrow> t
            | Some gs \<Rightarrow> t\<lparr>tip := group_or (Some gs) []\<rparr>)
      else t)"

text \<open>The duration in minutes (lines 119-120).\<close>

definition duration_minutes :: "str \<Rightarrow> str" where
  "duration_minutes duration =
     (case js_match duration duration_re of
        Some [g1, g2] \<Rightarrow> to_fixed2 (of_nat (dec g1) + of_nat (dec g2) / 60)
      | _ \<Rightarrow> asc ''0'')"

text \<open>The whole script; its result is the record of line 122.\<close>

definition extract_trip_data :: "dom_page \<Rightarrow> exn + trip" where
  "extract_trip_data page =
     (case points_text page of
        Inl err \<Rightarrow> Inl err
      | Inr pts \<Rightarrow>
          Inr ((tip_fallback (body_text page)
                  (headline_total (heading page)
                     (fee_sweep (body_text page)
                        (fold sweep_item (list_items page) (script_vars page pts)))))
               \<lparr>durationMin := duration_minutes (duration_text page)\<rparr>))"

text \<open>
  A page has a recognisable duration element when the trimmed text of a childless element
  matches \<open><min> min <sec> sec\<close>, and a recognisable points element when the text of a
  childless element matches \<open><int> point(s) earned\<close>.
\<close>

definition has_duration_element :: "dom_page \<Rightarrow> bool" where
  "has_duration_element page =
     list_ex (\<lambda>(text, children). children = 0 \<and> js_match (js_trim text) duration_re \<noteq> None)
       (elements page)"

definition has_points_element :: "dom_page \<Rightarrow> bool" where
  "has_points_element page =
     list_ex (\<lambda>(text, children). children = 0 \<and> js_match text points_re \<noteq> None)
       (elements page)"

text \<open>A document with nothing in it, and the record of the defaults.\<close>

definition blank_page :: dom_page where
  "blank_page = \<lparr>header_span = None, elements = [], body_text = [], list_items = [],
                 heading = None\<rparr>"

definition default_trip :: trip where
  "default_trip = \<lparr>date = [], time = [], rideType = [],
     distancePay = asc ''0'', timePay = asc ''0'', surge = asc ''0'',
     promotion = asc ''0'', base = asc ''0'', fare = asc ''0'', tip = asc ''0'',
     minFare = asc ''0'', waitTime = asc ''0'', regionFee = asc ''0'',
     airportFee = asc ''0'', insuranceFee = asc ''0'', uberFee = asc ''0'',
     points = asc ''0'', city = [], pickup = [], dropoff = [],
     distance = [], durationMin = asc ''0'', perMile = asc ''0'',
     perMin = asc ''0'', totalEarnings = asc ''0'', customerFare = asc ''0''\<rparr>"

text \<open>A trip page for the examples: a header, a distance, two addresses, no duration, no points.\<close>

definition sample_page :: dom_page where
  "sample_page =
     \<lparr>header_span = Some (asc ''UberX '' @ [8226] @ asc '' Jul 1, 2024 '' @ [8226] @ asc '' 3:45 PM''),
      elements = [(asc ''Trip details'', 2), (asc ''5.23 mi'', 0),
                  (asc ''12 Oak St, Portland, OR, US'', 0),
                  (asc ''9 Elm Ave, Salem, OR, US'', 0)],
      body_text = asc ''Base $2.50 Distance 5.23 mile $0.99/mile $5.18 $1.00 tip included'',
      list_items = [asc ''Base $2.50'', asc ''Distance 5.23 mile $5.18''],
      heading = Some (asc ''$8.68'')\<rparr>"

section \<open>Properties of the matcher\<close>

lemma pushes_Cons: "pushes (d # ds) cur = pushes ds (push d cur)"
  by (cases cur) simp_all

lemma pushes_Nil [simp]: "pushes [] cur = cur"
  by (cases cur) simp_all

text \<open>A greedy star takes a whole run when the pattern goes on matching after it.\<close>

lemma rx_Star_greedy:
  "\<forall>x\<in>set ds. in_cls c x \<Longrightarrow>
   (case rest of [] \<Rightarrow> True | y # ys \<Rightarrow> \<not> in_cls c y) \<Longrightarrow>
   rx r (pos + length ds) rest (pushes ds cur) done = Some res \<Longrightarrow>
   rx (Star c # r) pos (ds @ rest) cur done = Some res"
proof (induction ds arbitrary: pos cur)
  case Nil
  then show ?case by (cases rest) (auto split: option.splits)
next
  case (Cons d ds)
  from Cons.prems have "rx (Star c # r) (Suc pos) (ds @ rest) (push d cur) done = Some res"
    by (intro Cons.IH) (simp_all add: pushes_Cons)
  with Cons.prems show ?case by simp
qed

text \<open>Whatever a star took, the rest of the pattern matched a suffix of the text.\<close>

lemma rx_Star_inv:
  "rx (Star c # r) pos s cur done = Some res \<Longrightarrow>
   \<exists>k p cur'. rx r p (drop k s) cur' done = Some res"
proof (induction s arbitrary: pos cur)
  case Nil
  then have "rx r pos (drop 0 []) cur done = Some res" by simp
  then show ?case by blast
next
  case (Cons x xs)
  show ?case
  proof (cases "in_cls c x \<and> rx (Star c # r) (Suc pos) xs (push x cur) done \<noteq> None")
    case True
    with Cons.prems have "rx (Star c # r) (Suc pos) xs (push x cur) done = Some res"
      by (auto split: option.splits)
    from Cons.IH [OF this] obtain k p cur' where
      "rx r p (drop k xs) cur' done = Some res" by blast
    then have "rx r p (drop (Suc k) (x # xs)) cur' done = Some res"
      by simp
    then show ?thesis by blast
  next
    case False
    with Cons.prems have "rx r pos (x # xs) cur done = Some res"
      by (auto split: option.splits if_splits)
    then have "rx r pos (drop 0 (x # xs)) cur done = Some res"
      by simp
    then show ?thesis by blast
  qed
qed

lemma rx_litsI_prefix:
  "rx (litsI w @ r) p s cur done = Some res \<Longrightarrow> ci_prefix (asc w) s"
  unfolding litsI_def
proof (induction "asc w" arbitrary: w s p cur)
  case Nil
  then show ?case by simp
next
  case (Cons c cs)
  from Cons(2) obtain a w' where w: "w = a # w'" "c = of_char a" "cs = asc w'"
    by (cases w) (auto simp: asc_def)
  from Cons(3) obtain x xs where s: "s = x # xs" "ci_eq c x"
      "rx (map (\<lambda>c. C (ChI c)) (asc w') @ r) (Suc p) xs (push x cur) done = Some res"
    by (cases s) (auto simp: w asc_def split: if_splits)
  from Cons(1) [OF w(3) s(3)] show ?case
    using s(1,2) w by (simp add: asc_def)
qed

lemma has_ci_prefix: "ci_prefix w s \<Longrightarrow> has_ci w s"
  by (cases s) simp_all

lemma has_ci_drop: "has_ci w (drop k s) \<Longrightarrow> has_ci w s"
proof (induction s arbitrary: k)
  case Nil
  then show ?case by simp
next
  case (Cons x xs)
  then show ?case by (cases k) auto
qed

lemma has_ci_skip:
  "\<forall>x\<in>set a. \<not> ci_eq c x \<Longrightarrow> has_ci (c # w) (a @ b) = has_ci (c # w) b"
  by (induction a) simp_all

lemma search_has_ci:
  "(\<And>pos s. rx p pos s None [] \<noteq> None \<Longrightarrow> has_ci w s) \<Longrightarrow>
   search p pos s \<noteq> None \<Longrightarrow> has_ci w s"
proof (induction s arbitrary: pos)
  case Nil
  then show ?case by (metis search.simps(1))
next
  case (Cons x xs)
  show ?case
  proof (cases "rx p pos (x # xs) None []")
    case None
    with Cons.prems(2) have "search p (Suc pos) xs \<noteq> None" by simp
    with Cons.IH Cons.prems(1) have "has_ci w xs" by blast
    then show ?thesis by simp
  next
    case (Some a)
    with Cons.prems(1) show ?thesis by blast
  qed
qed

section \<open>Properties of the fare text parser\<close>

lemmas rx_eval = mile_re_def minute_re_def asc_def many1_def opt_def litsI_def lits_def
  DigitDot_def is_digit_def ci_eq_def py_isspace_def js_isspace_def

lemma mile_tail:
  "list_all (in_cls DigitDot) g2 \<Longrightarrow>
   rx (Star DigitDot # Close # C (Ch 47) # litsI ''mile'') pos (g2 @ asc ''/mile'' @ rest)
      (Some g) done
     = Some (pos + length g2 + 5, done @ [g @ g2])"
  by (rule rx_Star_greedy) (simp_all add: rx_eval list_all_iff)

lemma Suc11: "Suc (Suc (Suc (Suc (Suc (Suc (Suc (Suc (Suc (Suc (Suc n)))))))))) = n + 11"
  by simp

text \<open>
  On \<open>g1 mile \<times> $g2/mile\<close>, with \<open>g1\<close> and \<open>g2\<close> made of digits and dots, the distance pattern
  matches at the start and captures exactly \<open>g1\<close> and \<open>g2\<close>.
\<close>

lemma mile_search:
  assumes n1: "numeral_text g1" and n2: "numeral_text g2"
  shows "search mile_re 0 (g1 @ asc '' mile '' @ [215] @ asc '' $'' @ g2 @ asc ''/mile'' @ rest)
         = Some (length g1 + length g2 + 14, [g1, g2])"
proof -
  from n1 obtain a g1' where
    g1: "g1 = a # g1'" "in_cls DigitDot a" "list_all (in_cls DigitDot) g1'"
    by (cases g1) (auto simp: numeral_text_def)
  from n2 obtain b g2' where
    g2: "g2 = b # g2'" "in_cls DigitDot b" "list_all (in_cls DigitDot) g2'"
    by (cases g2) (auto simp: numeral_text_def)
  have mid: "rx ([Close, Star PySpace] @ litsI ''mile''
     @ [Star PySpace, C (Ch 215), Star PySpace, C (Ch 36), Open] @ many1 DigitDot
     @ [Close, C (Ch 47)] @ litsI ''mile'') (Suc (length g1'))
      (asc '' mile '' @ [215] @ asc '' $'' @ g2 @ asc ''/mile'' @ rest) (Some g1) []
     = Some (length g1 + length g2 + 14, [g1, g2])"
    using mile_tail [OF g2(3), of "length g1' + 11" rest "[b]" "[g1]"] g2(2) g1(1)
    by (simp add: g2(1) litsI_def many1_def asc_def py_isspace_def ci_eq_def Suc11)
  have "rx (Star DigitDot # [Close, Star PySpace] @ litsI ''mile''
     @ [Star PySpace, C (Ch 215), Star PySpace, C (Ch 36), Open] @ many1 DigitDot
     @ [Close, C (Ch 47)] @ litsI ''mile'') (Suc 0)
       (g1' @ asc '' mile '' @ [215] @ asc '' $'' @ g2 @ asc ''/mile'' @ rest) (Some [a]) []
        = Some (length g1 + length g2 + 14, [g1, g2])"
  proof (rule rx_Star_greedy)
    show "\<forall>x\<in>set g1'. in_cls DigitDot x" using g1(3) by (simp add: list_all_iff)
    show "case asc '' mile '' @ [215] @ asc '' $'' @ g2 @ asc ''/mile'' @ rest of
            [] \<Rightarrow> True | y # ys \<Rightarrow> \<not> in_cls DigitDot y"
      by (simp add: asc_def DigitDot_def is_digit_def)
    show "rx ([Close, Star PySpace] @ litsI ''mile''
     @ [Star PySpace, C (Ch 215), Star PySpace, C (Ch 36), Open] @ many1 DigitDot
     @ [Close, C (Ch 47)] @ litsI ''mile'') (Suc 0 + length g1')
      (asc '' mile '' @ [215] @ asc '' $'' @ g2 @ asc ''/mile'' @ rest) (pushes g1' (Some [a])) []
     = Some (length g1 + length g2 + 14, [g1, g2])"
      using mid by (simp add: g1(1))
  qed
  then have "rx mile_re 0
      (g1 @ asc '' mile '' @ [215] @ asc '' $'' @ g2 @ asc ''/mile'' @ rest) None []
        = Some (length g1 + length g2 + 14, [g1, g2])"
    unfolding mile_re_def using g1(2) by (simp add: g1(1) many1_def)
  then show ?thesis
    by (simp add: g1(1))
qed

text \<open>A match of either pattern needs its unit in the text, up to case.\<close>

lemma rx_unit_has_ci:
  assumes "rx ([Open] @ many1 DigitDot @ [Close, Star PySpace] @ litsI w @ r) pos s cur done
             = Some res"
  shows "has_ci (asc w) s"
proof -
  from assms obtain x xs where s: "s = x # xs"
    by (cases s) (simp_all add: many1_def)
  from assms obtain cur1 where
    "rx (Star DigitDot # Close # Star PySpace # litsI w @ r) (Suc pos) xs cur1 done = Some res"
    by (simp add: s many1_def split: if_splits)
  from rx_Star_inv [OF this] obtain k p cur2 where
    "rx (Close # Star PySpace # litsI w @ r) p (drop k xs) cur2 done = Some res"
    by blast
  then obtain done2 where
    "rx (Star PySpace # litsI w @ r) p (drop k xs) None done2 = Some res"
    by simp
  from rx_Star_inv [OF this] obtain k2 p2 cur3 where
    "rx (litsI w @ r) p2 (drop k2 (drop k xs)) cur3 done2 = Some res"
    by blast
  then have "ci_prefix (asc w) (drop k2 (drop k xs))"
    by (rule rx_litsI_prefix)
  then have "has_ci (asc w) (drop (k2 + k) xs)"
    by (simp add: has_ci_prefix)
  then have "has_ci (asc w) xs" by (rule has_ci_drop)
  then show ?thesis by (simp add: s)
qed

lemma search_mile_has_ci: "search mile_re pos s \<noteq> None \<Longrightarrow> has_ci (asc ''mile'') s"
proof (rule search_has_ci [where p = mile_re])
  fix pos s
  assume "rx mile_re pos s None [] \<noteq> None"
  then obtain res where "rx mile_re pos s None [] = Some res" by blast
  then show "has_ci (asc ''mile'') s"
    unfolding mile_re_def by (rule rx_unit_has_ci)
qed

lemma search_minute_has_ci: "search minute_re pos s \<noteq> None \<Longrightarrow> has_ci (asc ''min'') s"
proof (rule search_has_ci [where p = minute_re])
  fix pos s
  assume "rx minute_re pos s None [] \<noteq> None"
  then obtain res where "rx minute_re pos s None [] = Some res" by blast
  then show "has_ci (asc ''min'') s"
    unfolding minute_re_def by (rule rx_unit_has_ci)
qed

lemma numeral_no_letter:
  "list_all (in_cls DigitDot) g \<Longrightarrow> \<forall>x\<in>set g. \<not> ci_eq 109 x"
  by (auto simp: list_all_iff DigitDot_def is_digit_def ci_eq_def)

lemma mile_text_no_min:
  assumes "numeral_text g1" "numeral_text g2"
  shows "\<not> has_ci (asc ''min'')
           (g1 @ asc '' mile '' @ [215] @ asc '' $'' @ g2 @ asc ''/mile'')"
proof -
  from assms have a: "\<forall>x\<in>set g1. \<not> ci_eq 109 x" and b: "\<forall>x\<in>set g2. \<not> ci_eq 109 x"
    by (auto simp: numeral_text_def dest: numeral_no_letter)
  have "asc ''min'' = 109 # [105, 110]" by (simp add: asc_def)
  then show ?thesis
    by (simp add: has_ci_skip [OF a] has_ci_skip [OF b] asc_def ci_eq_def)
qed

lemma minute_tail:
  "list_all (in_cls DigitDot) g2 \<Longrightarrow>
   rx (Star DigitDot # Close # C (Ch 47) # litsI ''min'') pos (g2 @ asc ''/min'' @ rest)
      (Some g) done
     = Some (pos + length g2 + 4, done @ [g @ g2])"
  by (rule rx_Star_greedy) (simp_all add: rx_eval list_all_iff)

lemma Suc10: "Suc (Suc (Suc (Suc (Suc (Suc (Suc (Suc (Suc (Suc n))))))))) = n + 10"
  by simp

lemma minute_search:
  assumes n1: "numeral_text g1" and n2: "numeral_text g2"
  shows "search minute_re 0 (g1 @ asc '' min '' @ [215] @ asc '' $'' @ g2 @ asc ''/min'' @ rest)
         = Some (length g1 + length g2 + 12, [g1, g2])"
proof -
  from n1 obtain a g1' where
    g1: "g1 = a # g1'" "in_cls DigitDot a" "list_all (in_cls DigitDot) g1'"
    by (cases g1) (auto simp: numeral_text_def)
  from n2 obtain b g2' where
    g2: "g2 = b # g2'" "in_cls DigitDot b" "list_all (in_cls DigitDot) g2'"
    by (cases g2) (auto simp: numeral_text_def)
  have mid: "rx ([Close, Star PySpace] @ litsI ''min''
     @ [Alt (litsI ''ute'') [], Star PySpace, C (Ch 215), Star PySpace, C (Ch 36), Open]
     @ many1 DigitDot @ [Close, C (Ch 47)] @ litsI ''min'') (Suc (length g1'))
      (asc '' min '' @ [215] @ asc '' $'' @ g2 @ asc ''/min'' @ rest) (Some g1) []
     = Some (length g1 + length g2 + 12, [g1, g2])"
    using minute_tail [OF g2(3), of "length g1' + 10" rest "[b]" "[g1]"] g2(2) g1(1)
    by (simp add: g2(1) litsI_def many1_def asc_def py_isspace_def ci_eq_def Suc10)
  have "rx (Star DigitDot # [Close, Star PySpace] @ litsI ''min''
     @ [Alt (litsI ''ute'') [], Star PySpace, C (Ch 215), Star PySpace, C (Ch 36), Open]
     @ many1 DigitDot @ [Close, C (Ch 47)] @ litsI ''min'') (Suc 0)
       (g1' @ asc '' min '' @ [215] @ asc '' $'' @ g2 @ asc ''/min'' @ rest) (Some [a]) []
        = Some (length g1 + length g2 + 12, [g1, g2])"
  proof (rule rx_Star_greedy)
    show "\<forall>x\<in>set g1'. in_cls DigitDot x" using g1(3) by (simp add: list_all_iff)
    show "case asc '' min '' @ [215] @ asc '' $'' @ g2 @ asc ''/min'' @ rest of
            [] \<Rightarrow> True | y # ys \<Rightarrow> \<not> in_cls DigitDot y"
      by (simp add: asc_def DigitDot_def is_digit_def)
    show "rx ([Close, Star PySpace] @ litsI ''min''
     @ [Alt (litsI ''ute'') [], Star PySpace, C (Ch 215), Star PySpace, C (Ch 36), Open]
     @ many1 DigitDot @ [Close, C (Ch 47)] @ litsI ''min'') (Suc 0 + length g1')
      (asc '' min '' @ [215] @ asc '' $'' @ g2 @ asc ''/min'' @ rest) (pushes g1' (Some [a])) []
     = Some (length g1 + length g2 + 12, [g1, g2])"
      using mid by (simp add: g1(1))
  qed
  then have "rx minute_re 0
      (g1 @ asc '' min '' @ [215] @ asc '' $'' @ g2 @ asc ''/min'' @ rest) None []
        = Some (length g1 + length g2 + 12, [g1, g2])"
    unfolding minute_re_def using g1(2) by (simp add: g1(1) many1_def)
  then show ?thesis
    by (simp add: g1(1))
qed

lemma min_text_no_mile:
  assumes "numeral_text g1" "numeral_text g2"
  shows "\<not> has_ci (asc ''mile'')
           (g1 @ asc '' min '' @ [215] @ asc '' $'' @ g2 @ asc ''/min'')"
proof -
  from assms have a: "\<forall>x\<in>set g1. \<not> ci_eq 109 x" and b: "\<forall>x\<in>set g2. \<not> ci_eq 109 x"
    by (auto simp: numeral_text_def dest: numeral_no_letter)
  have "asc ''mile'' = 109 # [105, 108, 101]" by (simp add: asc_def)
  then show ?thesis
    by (simp add: has_ci_skip [OF a] has_ci_skip [OF b] asc_def ci_eq_def)
qed

text \<open>\<open>float\<close> on a decimal numeral is its value; \<open>float\<close> never gives a negative number here.\<close>

lemma py_float_decimal:
  assumes "ip \<noteq> []" "list_all is_digit ip" "list_all is_digit fp"
  shows "py_float (decimal ip fp) = Some (decimal_value ip fp)"
proof (cases "fp = []")
  case True
  from assms(2) have tw: "takeWhile is_digit ip = ip" and dw: "dropWhile is_digit ip = []"
    by (simp_all add: list_all_iff)
  have "py_float ip = Some (of_nat (dec ip))"
    unfolding py_float_def Let_def tw dw using assms(1) by simp
  with True show ?thesis
    by (simp add: decimal_def decimal_value_def dec_def)
next
  case False
  from assms(2) have tw: "takeWhile is_digit (ip @ 46 # fp) = ip"
    and dw: "dropWhile is_digit (ip @ 46 # fp) = 46 # fp"
    by (simp_all add: list_all_iff takeWhile_tail dropWhile_append3 is_digit_def)
  have "py_float (ip @ 46 # fp) = Some (of_nat (dec ip) + of_nat (dec fp) / 10 ^ length fp)"
    unfolding py_float_def Let_def tw dw using assms False by simp
  with False show ?thesis
    by (simp add: decimal_def decimal_value_def)
qed


lemma decimal_numeral_text:
  assumes "ip \<noteq> []" "list_all is_digit ip" "list_all is_digit fp"
  shows "numeral_text (decimal ip fp)"
  using assms by (auto simp: numeral_text_def decimal_def DigitDot_def list_all_iff)

text \<open>
  The parts of claim C1 that hold.  The text \<open>f"{m} mile \<times> ${r}/mile"\<close>, for \<open>m\<close> and \<open>r\<close>
  written as decimal numerals, parses to exactly \<open>miles = m\<close> and \<open>rate_per_mile = r\<close>; the same
  for minutes.
\<close>

lemma parse_fare_line_distance:
  assumes "ip1 \<noteq> []" "list_all is_digit ip1" "list_all is_digit fp1"
      and "ip2 \<noteq> []" "list_all is_digit ip2" "list_all is_digit fp2"
  shows "parse_fare_line lbl (distance_text (decimal ip1 fp1) (decimal ip2 fp2))
         = Inr [''miles'' \<mapsto> decimal_value ip1 fp1, ''rate_per_mile'' \<mapsto> decimal_value ip2 fp2]"
proof -
  have n: "numeral_text (decimal ip1 fp1)" "numeral_text (decimal ip2 fp2)"
    using assms by (simp_all add: decimal_numeral_text)
  have 1: "search mile_re 0 (distance_text (decimal ip1 fp1) (decimal ip2 fp2))
        = Some (length (decimal ip1 fp1) + length (decimal ip2 fp2) + 14,
                [decimal ip1 fp1, decimal ip2 fp2])"
    using mile_search [OF n, of "[]"] by (simp add: distance_text_def)
  have 2: "search minute_re 0 (distance_text (decimal ip1 fp1) (decimal ip2 fp2)) = None"
  proof (rule ccontr)
    assume "search minute_re 0 (distance_text (decimal ip1 fp1) (decimal ip2 fp2)) \<noteq> None"
    then have "has_ci (asc ''min'') (distance_text (decimal ip1 fp1) (decimal ip2 fp2))"
      by (rule search_minute_has_ci)
    with mile_text_no_min [OF n] show False by (simp add: distance_text_def)
  qed
  show ?thesis
    using assms by (simp add: parse_fare_line_def 1 2 py_float_decimal)
qed

lemma parse_fare_line_time:
  assumes "ip1 \<noteq> []" "list_all is_digit ip1" "list_all is_digit fp1"
      and "ip2 \<noteq> []" "list_all is_digit ip2" "list_all is_digit fp2"
  shows "parse_fare_line lbl (time_text (decimal ip1 fp1) (decimal ip2 fp2))
         = Inr [''minutes'' \<mapsto> decimal_value ip1 fp1,
                ''rate_per_minute'' \<mapsto> decimal_value ip2 fp2]"
proof -
  have n: "numeral_text (decimal ip1 fp1)" "numeral_text (decimal ip2 fp2)"
    using assms by (simp_all add: decimal_numeral_text)
  have 1: "search minute_re 0 (time_text (decimal ip1 fp1) (decimal ip2 fp2))
        = Some (length (decimal ip1 fp1) + length (decimal ip2 fp2) + 12,
                [decimal ip1 fp1, decimal ip2 fp2])"
    using minute_search [OF n, of "[]"] by (simp add: time_text_def)
  have 2: "search mile_re 0 (time_text (decimal ip1 fp1) (decimal ip2 fp2)) = None"
  proof (rule ccontr)
    assume "search mile_re 0 (time_text (decimal ip1 fp1) (decimal ip2 fp2)) \<noteq> None"
    then have "has_ci (asc ''mile'') (time_text (decimal ip1 fp1) (decimal ip2 fp2))"
      by (rule search_mile_has_ci)
    with min_text_no_mile [OF n] show False by (simp add: time_text_def)
  qed
  show ?thesis
    using assms by (simp add: parse_fare_line_def 1 2 py_float_decimal)
qed

text \<open>
  A text that does not contain \<open>mile\<close>, in any case, never gives the key \<open>miles\<close>; and when
  neither pattern matches, the result is the empty dictionary and nothing is raised.
\<close>

lemma parse_fare_line_miles_key:
  assumes "parse_fare_line lbl text = Inr d" "d ''miles'' \<noteq> None"
  shows "has_ci (asc ''mile'') text"
proof -
  have "search mile_re 0 text \<noteq> None"
  proof
    assume "search mile_re 0 text = None"
    with assms show False
      by (auto simp: parse_fare_line_def split: option.splits list.splits)
  qed
  then show ?thesis by (rule search_mile_has_ci)
qed



text \<open>
  Claim C1 says that the parser never raises.  It does: \<open>[\d\.]+\<close> also captures texts such as
  \<open>.\<close> and \<open>1.2.3\<close>, on which \<open>float\<close> raises \<open>ValueError\<close>, and \<open>parse_fare_line\<close> has no handler.
  The detail texts \<open>Est. mile \<times> $0.99/mile\<close> and \<open>1.2.3 mile \<times> $0.99/mile\<close> both match the
  distance pattern and make the parser raise.
\<close>

theorem parse_fare_line_raises:
  "parse_fare_line (asc ''Distance'') (asc ''Est. mile '' @ [215] @ asc '' $0.99/mile'')
     = Inl ValueError
   \<and> parse_fare_line (asc ''Distance'') (distance_text (asc ''1.2.3'') (asc ''0.99''))
     = Inl ValueError"
  by (simp add: parse_fare_line_def py_float_def distance_text_def rx_eval)

section \<open>Properties of the fare item loop\<close>


lemma or_zero_Some [simp]: "or_zero (Some a) = a"
  by (simp add: or_zero_def)

lemma or_zero_None [simp]: "or_zero None = 0"
  by (simp add: or_zero_def)











section \<open>Properties of the checkpoint file\<close>









section \<open>Properties of the scraping run\<close>

lemma row_id_trip_row [simp]: "row_id (trip_row i pg acc) = Some i"
  by (simp add: row_id_def trip_row_def)









lemmas week_eval = scrape_all_trips_def scrape_week_def scrape_trip_details_def
  fetch_visited_def append_visited_def append_trip_row_def write_csv_header_if_needed_def
  trip_id_of_def py_strip_def py_isspace_def asc_def rows_of_def bare_page_def
  link_t1_def link_t2_def link_slash_def clean_id_def line_terminated_def




text \<open>
  Claim C10.  \<open>scrape_trip_details\<close> leaves the set \<open>visited\<close> in memory as it was.  So two
  calls in one run on a link whose identifier was not in the set at startup, the page
  loading and parsing both times, append two rows and two checkpoint lines.
\<close>

theorem visited_set_never_updated:
  "visited (fst (scrape_trip_details vf page link st)) = visited st
   \<and> (trip_id_of link \<notin> visited st
        \<and> fare_loop vf init_acc (zip (labels pg) (zip (vals pg) (details pg))) = Inr acc
      \<longrightarrow> (let st1 = fst (scrape_trip_details vf (Inr pg) link st);
               st2 = fst (scrape_trip_details vf (Inr pg) link st1)
           in csv st1 = Some (rows_of (csv st) @ [trip_row (trip_id_of link) pg acc])
            \<and> checkpoint st1 = Some (rows_of (checkpoint st) @ trip_id_of link @ [10])
            \<and> csv st2 = Some (rows_of (csv st) @ [trip_row (trip_id_of link) pg acc,
                                                    trip_row (trip_id_of link) pg acc])
            \<and> checkpoint st2 = Some (rows_of (checkpoint st) @ trip_id_of link @ [10]
                                       @ trip_id_of link @ [10])
            \<and> visited st2 = visited st))"
  by (auto simp: scrape_trip_details_def Let_def append_trip_row_def append_visited_def
        rows_of_def split: sum.splits option.splits)

theorem visited_set_never_updated_witness:
  "visited (fst (scrape_trip_details (\<lambda>s. None) (Inr bare_page) link_t2
       \<lparr>visited = {asc ''t1''}, csv = Some [header_row], checkpoint = Some (asc ''t1'' @ [10])\<rparr>))
     = {asc ''t1''}
   \<and> csv (fst (scrape_trip_details (\<lambda>s. None) (Inr bare_page) link_t2
       (fst (scrape_trip_details (\<lambda>s. None) (Inr bare_page) link_t2
       \<lparr>visited = {asc ''t1''}, csv = Some [header_row], checkpoint = Some (asc ''t1'' @ [10])\<rparr>))))
     = Some [header_row, trip_row (asc ''t2'') bare_page init_acc,
             trip_row (asc ''t2'') bare_page init_acc]
   \<and> checkpoint (fst (scrape_trip_details (\<lambda>s. None) (Inr bare_page) link_t2
       (fst (scrape_trip_details (\<lambda>s. None) (Inr bare_page) link_t2
       \<lparr>visited = {asc ''t1''}, csv = Some [header_row], checkpoint = Some (asc ''t1'' @ [10])\<rparr>))))
     = Some (asc ''t1'' @ [10] @ asc ''t2'' @ [10] @ asc ''t2'' @ [10])"
  using visited_set_never_updated [of "\<lambda>s. None" "Inr bare_page" link_t2
      "\<lparr>visited = {asc ''t1''}, csv = Some [header_row], checkpoint = Some (asc ''t1'' @ [10])\<rparr>"
      bare_page init_acc]
  by (simp add: week_eval Let_def)

section \<open>Properties of the CSV ledger\<close>

lemma save_csv_existing: "save_csv trips (Some rows) = Some (rows @ map csv_row trips)"
  by (simp add: save_csv_def)

lemma save_csv_absent:
  "save_csv trips None = (if trips = [] then None else Some (HEADERS # map csv_row trips))"
  by (simp add: save_csv_def)

lemma fold_save_csv_existing:
  "fold save_csv calls (Some rows) = Some (rows @ map csv_row (concat calls))"
  by (induction calls arbitrary: rows) (simp_all add: save_csv_existing)

lemma fold_save_csv_absent:
  "fold save_csv calls None =
     (if concat calls = [] then None else Some (HEADERS # map csv_row (concat calls)))"
proof (induction calls)
  case Nil
  show ?case by simp
next
  case (Cons c cs)
  show ?case
  proof (cases "c = []")
    case True
    with Cons show ?thesis by (simp add: save_csv_absent)
  next
    case False
    then show ?thesis by (simp add: save_csv_absent fold_save_csv_existing)
  qed
qed

text \<open>
  Claim C4, as the code has it.  Starting from an absent file, any sequence of \<open>save_csv\<close>
  calls that persists at least one record leaves a file made of the header row followed
  by exactly the persisted records, one row each and in order (so \<open>N\<close> records give \<open>N\<close>
  data rows); when no record at all is persisted the file is not created.  The header is
  the 26 columns in their fixed order.  A call on an existing file appends its rows and
  nothing else; the header is written only by a call that finds no file.
\<close>

theorem csv_ledger_header_once:
  "save_all calls None =
     (if concat calls = [] then None else Some (HEADERS # map csv_row (concat calls)))
   \<and> length (map csv_row (concat calls)) = length (concat calls)
   \<and> save_csv trips (Some rows) = Some (rows @ map csv_row trips)
   \<and> save_csv (t # ts) None = Some ([HEADERS] @ map csv_row (t # ts))
   \<and> length HEADERS = 26
   \<and> HEADERS = map asc
        [''Date'', ''Time'', ''Ride Type'', ''Distance Pay'', ''Time Pay'', ''Surge'',
         ''Promotion'', ''Base'', ''Fare (subtotal)'', ''Tip'', ''Minimum Fare Supplement'',
         ''Wait Time Pay'', ''Region/City Fee'', ''Airport Fee'',
         ''Insurance & Operational Fee'', ''Uber Service Fee'', ''Points Earned'', ''City'',
         ''Pickup Address'', ''Dropoff Address'', ''Distance (mi)'', ''Duration (min)'',
         ''$/mile'', ''$/min'', ''Total Earnings'', ''Total Customer Fare'']"
  by (simp add: save_all_def fold_save_csv_absent save_csv_existing save_csv_absent HEADERS_def)

text \<open>
  The claim as stated fails for \<open>N = 0\<close>: a call with an empty list of trips returns at line
  219, so no file is created and there is no header row.
\<close>

theorem csv_ledger_counterexample:
  "save_all [[]] None = None \<and> save_all [[]] None \<noteq> Some [HEADERS]"
  by (simp add: save_all_def save_csv_def)

section \<open>Termination of the week loop by the empty streak\<close>

lemmas loop_eval = week_pass_def test_pass_def on_error_def quiet_week_def start_state_def
  scraped_def Let_def

text \<open>
  Claim C5.  On weeks with \<open>0, 0, 0, 5\<close> trip URLs the loop stops in the third pass, with
  nothing opened or saved, and the week with five trips is never started.  On
  \<open>0, 0, 5, 0, 0, 0\<close> the five URLs of the third week are opened and its trips saved, the
  streak is \<open>0\<close> after that week, and the loop stops in the sixth pass.  The navigation test
  counts in the same way.
\<close>

theorem empty_streak_stops:
  "week_loop [quiet_week [], quiet_week [], quiet_week [], w] (start_state n f)
     = (Done, (start_state n f)\<lparr>week_num := 3, empty_streak := 3\<rparr>, [w])
   \<and> week_loop [quiet_week [], quiet_week [], quiet_week [u1, u2, u3, u4, u5]] (start_state n f)
     = (Pending,
        (start_state n f)\<lparr>week_num := 3, empty_streak := 0,
           opened := map fst [u1, u2, u3, u4, u5],
           output_csv := (if scraped [u1, u2, u3, u4, u5] = [] then f
                      else save_csv (scraped [u1, u2, u3, u4, u5]) f),
           total := n + length (scraped [u1, u2, u3, u4, u5])\<rparr>, [])
   \<and> week_loop ([quiet_week [], quiet_week [], quiet_week [u1, u2, u3, u4, u5],
                  quiet_week [], quiet_week [], quiet_week []] @ later) (start_state n f)
     = (Done,
        (start_state n f)\<lparr>week_num := 6, empty_streak := 3,
           opened := map fst [u1, u2, u3, u4, u5],
           output_csv := (if scraped [u1, u2, u3, u4, u5] = [] then f
                      else save_csv (scraped [u1, u2, u3, u4, u5]) f),
           total := n + length (scraped [u1, u2, u3, u4, u5])\<rparr>, later)
   \<and> test_loop [quiet_week [], quiet_week [], quiet_week [], w] (start_state n f)
     = (Done, (start_state n f)\<lparr>week_num := 3, empty_streak := 3\<rparr>, [w])
   \<and> test_loop ([quiet_week [], quiet_week [], quiet_week [u1, u2, u3, u4, u5],
                  quiet_week [], quiet_week [], quiet_week []] @ later) (start_state n f)
     = (Done, (start_state n f)\<lparr>week_num := 6, empty_streak := 3\<rparr>, later)"
  by (simp add: loop_eval)

section \<open>The week range of the forward scraper\<close>

lemmas date_eval = ymd_def ymd2ord_def ord2ymd_def days_before_year_def days_before_month_def
  is_leap_def days_in_month_def year_of_def month_of_def day_of_def weekday_def get_monday_def
  add_days_def MAXORDINAL_def mk_datetime_def dt_gt_def Let_def

lemma show_nat_small: "n < 10 \<Longrightarrow> show_nat n = [48 + n]"
  by (simp add: show_nat.simps)

lemma show_nat_big: "10 \<le> n \<Longrightarrow> show_nat n = show_nat (n div 10) @ [48 + n mod 10]"
  by (subst show_nat.simps) simp

lemma show_nat_digit: "show_nat 1 = asc ''1''" "show_nat 8 = asc ''8''"
  by (simp_all add: show_nat_small asc_def)

lemma show_nat_2024: "show_nat 2024 = asc ''2024''"
  by (simp add: show_nat_small show_nat_big asc_def)

lemmas show_nat_eval = show_nat_digit show_nat_2024

lemmas strptime_eval = start_week_date_def formats_def strptime_def format_re_def re_b_def
  re_d_def re_m_def re_Y_def re_y_def has_year_def replace_year_def is_directive_def int_of_def
  ascii_lower_def month_number_def month_names_def dec_def py_strip_def now_mar_15_def at_10_def
  asc_def many1_def lits_def litsI_def is_digit_def ci_eq_def py_isspace_def

text \<open>
  Claim C7, as the code has it.  For the Monday 2024-07-01 the range is
  \<open>Jul 1, 2024 \<endash> Jul 8, 2024\<close>.  For every date \<open>m\<close> up to 9999-12-24, the last day that has
  a day seven days later, the range is the month name, day and year of \<open>m\<close>, an en dash
  between spaces, and the month name, day and year of the day seven days after \<open>m\<close>, which
  falls on the same day of the week.
\<close>

theorem week_range_format:
  "format_week_range (ymd 2024 7 1) = Inr (asc ''Jul 1, 2024 '' @ [8211] @ asc '' Jul 8, 2024'')
   \<and> weekday (ymd 2024 7 1) = 0
   \<and> (ordinal m + 7 \<le> MAXORDINAL \<longrightarrow>
        format_week_range m
          = Inr (format_date m @ asc '' '' @ [8211] @ asc '' ''
                   @ format_date (m\<lparr>ordinal := ordinal m + 7\<rparr>))
        \<and> weekday (m\<lparr>ordinal := ordinal m + 7\<rparr>) = weekday m)"
proof -
  have "format_week_range (ymd 2024 7 1)
          = Inr (asc ''Jul 1, 2024 '' @ [8211] @ asc '' Jul 8, 2024'')"
    by (simp add: format_week_range_def format_date_def month_abbr_def month_names_def date_eval
          show_nat_small show_nat_big asc_def)
  moreover have "weekday (ymd 2024 7 1) = 0"
    by (simp add: date_eval)
  moreover have "ordinal m + 7 \<le> MAXORDINAL \<longrightarrow>
        format_week_range m
          = Inr (format_date m @ asc '' '' @ [8211] @ asc '' ''
                   @ format_date (m\<lparr>ordinal := ordinal m + 7\<rparr>))
        \<and> weekday (m\<lparr>ordinal := ordinal m + 7\<rparr>) = weekday m"
  proof -
    have "(ordinal m + 7 + 6) mod 7 = (ordinal m + 6) mod 7" by presburger
    then show ?thesis
      by (simp add: format_week_range_def add_days_def weekday_def)
  qed
  ultimately show ?thesis by blast
qed

theorem week_range_format_witness:
  "format_week_range (ymd 2024 7 8)
     = Inr (format_date (ymd 2024 7 8) @ asc '' '' @ [8211] @ asc '' ''
              @ format_date (ymd 2024 7 15))
   \<and> weekday (ymd 2024 7 15) = weekday (ymd 2024 7 8)"
  using week_range_format [of "ymd 2024 7 8"]
  by (simp add: date_eval)

text \<open>
  The claim as stated fails for the Monday 9999-12-27: the day seven days later is past
  the last \<open>datetime\<close>, and the addition raises \<open>OverflowError\<close>.
\<close>

theorem week_range_format_counterexample:
  "weekday (ymd 9999 12 27) = 0
   \<and> mk_datetime 9999 12 27 = Some (ymd 9999 12 27)
   \<and> format_week_range (ymd 9999 12 27) = Inl OverflowError"
  by (simp add: format_week_range_def date_eval)

section \<open>The start date of the forward scraper\<close>

lemma get_monday_weekday: "1 \<le> ordinal d \<Longrightarrow> weekday (get_monday d) = 0"
  unfolding weekday_def get_monday_def by simp presburger

lemma start_week_date_empty: "start_week_date now [] = get_monday now"
  by (simp add: start_week_date_def)

text \<open>Each of the seven formats, on 1 July 2024 written in it, the year being 2024.\<close>

lemma start_week_date_formats:
  "start_week_date now_mar_15 (asc ''Jul 1, 2024'') = ymd 2024 7 1"
  "start_week_date now_mar_15 (asc ''Jul 1 2024'') = ymd 2024 7 1"
  "start_week_date now_mar_15 (asc ''Jul 1'') = ymd 2024 7 1"
  "start_week_date now_mar_15 (asc ''2024-07-01'') = ymd 2024 7 1"
  "start_week_date now_mar_15 (asc ''07/01/2024'') = ymd 2024 7 1"
  "start_week_date now_mar_15 (asc ''07/01/24'') = ymd 2024 7 1"
  "start_week_date now_mar_15 (asc ''07-01-2024'') = ymd 2024 7 1"
  by (simp_all add: strptime_eval date_eval)

lemma start_week_date_unparsed:
  "start_week_date now_mar_15 (asc ''July 1st'') = at_10 (ymd 2024 3 11)"
  by (simp add: strptime_eval date_eval)

text \<open>
  Claim C9 says that \<open>Mon D\<close> is accepted with the current year assumed.  For \<open>Feb 29\<close> in the
  leap year 2024 it is not: \<open>strptime\<close> builds the date in the year 1900, which has no
  29 February, and raises before line 272 can set the year; no other format matches and
  the walk starts from today's week, 11 March, instead of the week of 26 February that
  \<open>Feb 29, 2024\<close> and \<open>Feb 28\<close> give.
\<close>

theorem start_date_feb_29:
  "start_week_date now_mar_15 (asc ''Feb 29'') = get_monday now_mar_15
   \<and> get_monday now_mar_15 = at_10 (ymd 2024 3 11)
   \<and> start_week_date now_mar_15 (asc ''Feb 29, 2024'') = ymd 2024 2 26
   \<and> start_week_date now_mar_15 (asc ''Feb 28'') = ymd 2024 2 26"
  by (simp add: strptime_eval date_eval)

section \<open>The forward walk never works on a future week\<close>

lemma no_future_event_append:
  "no_future_event (a @ b) \<longleftrightarrow> no_future_event a \<and> no_future_event b"
  by (simp add: no_future_event_def)

lemma fwd_on_error_events: "events (snd (fwd_on_error ob st)) = events st"
  by (simp add: fwd_on_error_def split: sum.splits)

lemma fwd_pass_events:
  assumes "no_future_event (events st)"
  shows "no_future_event (events (snd (fwd_pass ob st)))"
proof (cases "format_week_range (week_date st)")
  case (Inl err)
  with assms show ?thesis by (simp add: fwd_pass_def)
next
  case line: (Inr line)
  show ?thesis
  proof (cases "dt_gt (week_date st) (now_top ob)")
    case True
    with assms line show ?thesis by (simp add: fwd_pass_def)
  next
    case False
    show ?thesis
      using assms line False
      by (auto simp: fwd_pass_def Let_def fwd_on_error_events no_future_event_def list_all_iff
               split: sum.splits option.splits)
  qed
qed

lemma fwd_loop_events:
  "no_future_event (events st) \<Longrightarrow> no_future_event (events (fst (snd (fwd_loop obs st))))"
proof (induction obs arbitrary: st)
  case Nil
  then show ?case by simp
next
  case (Cons ob obs)
  from fwd_pass_events [OF Cons.prems, of ob]
  have e: "no_future_event (events (snd (fwd_pass ob st)))" .
  show ?case
  proof (cases "fwd_pass ob st")
    case (Pair c st')
    with e have e': "no_future_event (events st')" by simp
    show ?thesis
    proof (cases c)
      case Continue
      with Pair Cons.IH [OF e'] show ?thesis by simp
    next
      case (Break out)
      with Pair e' show ?thesis by simp
    qed
  qed
qed

text \<open>
  Claim C6.  Every loading of a week, opening of a trip and saving of rows is for a week
  whose cursor was not after the clock reading at the top of its pass.  A pass that starts
  with the cursor after the clock reading ends the loop at once (by the check of line 298,
  or by the overflow of the week range printed at line 296 in the last week of the
  calendar); and a pass that advances the cursor past the clock reading ends the loop
  before anything is done for the new week.
\<close>

theorem future_week_never_loaded:
  "(no_future_event (events st) \<longrightarrow> no_future_event (events (fst (snd (fwd_loop obs st)))))
   \<and> (dt_gt (week_date st) (now_top ob) \<longrightarrow>
        (\<exists>out. fwd_loop (ob # obs) st = (out, st\<lparr>fwd_week_num := fwd_week_num st + 1\<rparr>, obs)
               \<and> (out = Done \<or> out = Crashed OverflowError)))
   \<and> (\<not> dt_gt (week_date st) (now_top ob) \<and> fwd_loaded ob = Inr urls
        \<and> \<not> (urls = [] \<and> empty st + 1 \<ge> 3)
        \<and> add_days (week_date st) 7 = Inr wd \<and> dt_gt wd (now_adv ob) \<longrightarrow>
        (\<exists>st'. fwd_loop (ob # obs) st = (Done, st', obs) \<and> week_date st' = wd
                \<and> list_all (\<lambda>(d, n, a). d = week_date st) (drop (length (events st)) (events st'))))"
proof -
  have 1: "no_future_event (events st) \<longrightarrow> no_future_event (events (fst (snd (fwd_loop obs st))))"
    by (simp add: fwd_loop_events)
  have 2: "dt_gt (week_date st) (now_top ob) \<longrightarrow>
        (\<exists>out. fwd_loop (ob # obs) st = (out, st\<lparr>fwd_week_num := fwd_week_num st + 1\<rparr>, obs)
               \<and> (out = Done \<or> out = Crashed OverflowError))"
    by (cases "MAXORDINAL < ordinal (week_date st) + 7")
       (simp_all add: fwd_pass_def format_week_range_def add_days_def Let_def)
  have 3: "\<not> dt_gt (week_date st) (now_top ob) \<and> fwd_loaded ob = Inr urls
        \<and> \<not> (urls = [] \<and> empty st + 1 \<ge> 3)
        \<and> add_days (week_date st) 7 = Inr wd \<and> dt_gt wd (now_adv ob) \<longrightarrow>
        (\<exists>st'. fwd_loop (ob # obs) st = (Done, st', obs) \<and> week_date st' = wd
                \<and> list_all (\<lambda>(d, n, a). d = week_date st) (drop (length (events st)) (events st')))"
    by (auto simp: fwd_pass_def format_week_range_def Let_def list_all_iff split: sum.splits)
  from 1 2 3 show ?thesis by blast
qed

theorem future_week_never_loaded_witness:
  "no_future_event (events (fst (snd (fwd_loop
       [fwd_quiet (at_10 (ymd 2024 7 10)) [(asc ''u1'', Inl PlaywrightError)],
        fwd_quiet (at_10 (ymd 2024 7 10)) []]
       (fwd_start (ymd 2024 7 1))))))
   \<and> fwd_loop [fwd_quiet (at_10 (ymd 2024 7 10)) []] (fwd_start (ymd 2024 7 15))
       = (Done, (fwd_start (ymd 2024 7 15))\<lparr>fwd_week_num := 1\<rparr>, [])
   \<and> (\<exists>st'. fwd_loop [fwd_quiet (at_10 (ymd 2024 7 10)) []] (fwd_start (ymd 2024 7 8))
                = (Done, st', [])
             \<and> week_date st' = ymd 2024 7 15)"
proof -
  have a: "no_future_event (events (fwd_start (ymd 2024 7 1)))"
    by (simp add: fwd_start_def no_future_event_def)
  have b: "dt_gt (week_date (fwd_start (ymd 2024 7 15)))
             (now_top (fwd_quiet (at_10 (ymd 2024 7 10)) []))"
    by (simp add: fwd_start_def fwd_quiet_def at_10_def date_eval)
  have c: "\<not> dt_gt (week_date (fwd_start (ymd 2024 7 8)))
               (now_top (fwd_quiet (at_10 (ymd 2024 7 10)) []))
           \<and> fwd_loaded (fwd_quiet (at_10 (ymd 2024 7 10)) []) = Inr []
           \<and> \<not> ([] = [] \<and> empty (fwd_start (ymd 2024 7 8)) + 1 \<ge> 3)
           \<and> add_days (week_date (fwd_start (ymd 2024 7 8))) 7 = Inr (ymd 2024 7 15)
           \<and> dt_gt (ymd 2024 7 15) (now_adv (fwd_quiet (at_10 (ymd 2024 7 10)) []))"
    by (simp add: fwd_start_def fwd_quiet_def at_10_def date_eval)
  from a future_week_never_loaded
    [of "fwd_start (ymd 2024 7 1)"
        "[fwd_quiet (at_10 (ymd 2024 7 10)) [(asc ''u1'', Inl PlaywrightError)],
          fwd_quiet (at_10 (ymd 2024 7 10)) []]"]
  have 1: "no_future_event (events (fst (snd (fwd_loop
       [fwd_quiet (at_10 (ymd 2024 7 10)) [(asc ''u1'', Inl PlaywrightError)],
        fwd_quiet (at_10 (ymd 2024 7 10)) []]
       (fwd_start (ymd 2024 7 1))))))"
    by blast
  from b future_week_never_loaded
    [of "fwd_start (ymd 2024 7 15)" "[]" "fwd_quiet (at_10 (ymd 2024 7 10)) []"]
  obtain out where
    "fwd_loop [fwd_quiet (at_10 (ymd 2024 7 10)) []] (fwd_start (ymd 2024 7 15))
       = (out, (fwd_start (ymd 2024 7 15))\<lparr>fwd_week_num :=
                  fwd_week_num (fwd_start (ymd 2024 7 15)) + 1\<rparr>, [])"
    "out = Done \<or> out = Crashed OverflowError"
    by blast
  moreover have "fst (fwd_loop [fwd_quiet (at_10 (ymd 2024 7 10)) []] (fwd_start (ymd 2024 7 15)))
                   \<noteq> Crashed OverflowError"
    by (simp add: fwd_pass_def format_week_range_def fwd_start_def fwd_quiet_def at_10_def
          date_eval)
  ultimately have 2: "fwd_loop [fwd_quiet (at_10 (ymd 2024 7 10)) []] (fwd_start (ymd 2024 7 15))
       = (Done, (fwd_start (ymd 2024 7 15))\<lparr>fwd_week_num :=
                  fwd_week_num (fwd_start (ymd 2024 7 15)) + 1\<rparr>, [])"
    by auto
  from c future_week_never_loaded
    [of "fwd_start (ymd 2024 7 8)" "[]" "fwd_quiet (at_10 (ymd 2024 7 10)) []" "[]"
        "ymd 2024 7 15"]
  have 3: "\<exists>st'. fwd_loop [fwd_quiet (at_10 (ymd 2024 7 10)) []] (fwd_start (ymd 2024 7 8))
                = (Done, st', [])
             \<and> week_date st' = ymd 2024 7 15"
    by blast
  from 1 2 3 show ?thesis by (simp add: fwd_start_def)
qed

section \<open>Properties of the trip detail extractor\<close>

lemma search_Bol_later: "search (Bol # r) (Suc p) s = None"
  by (induction s arbitrary: p) simp_all

lemma search_Bol_start: "search (Bol # r) 0 s \<noteq> None \<Longrightarrow> rx r 0 s None [] \<noteq> None"
  by (cases s) (auto simp: search_Bol_later split: option.splits)

lemma rx_Star_Close_total: "rx [Star c, Close] pos s cur done \<noteq> None"
  by (induction s arbitrary: pos cur) (auto split: option.splits)

lemma points_text_starts_with_digit:
  assumes "js_match tx points_re \<noteq> None"
  shows "\<exists>x xs. tx = x # xs \<and> is_digit x"
proof -
  from assms have "search (Bol # tl points_re) 0 tx \<noteq> None"
    by (simp add: js_match_def points_re_def)
  then have "rx (tl points_re) 0 tx None [] \<noteq> None"
    by (rule search_Bol_start)
  then show ?thesis
    by (cases tx) (auto simp: points_re_def many1_def split: if_splits)
qed

lemma digits_re_matches: "is_digit x \<Longrightarrow> js_match (x # xs) digits_re \<noteq> None"
  using rx_Star_Close_total [of Digit "Suc 0" xs "Some [x]" "[]"]
  by (auto simp: js_match_def digits_re_def many1_def split: option.splits)

lemma points_lookup_total:
  assumes "find (\<lambda>(text, children). js_match text points_re \<noteq> None \<and> children = 0) els
             = Some (tx, ch)"
  shows "js_match tx digits_re \<noteq> None"
proof -
  from assms have "js_match tx points_re \<noteq> None"
    by (auto simp: find_Some_iff)
  then obtain x xs where "tx = x # xs" "is_digit x"
    using points_text_starts_with_digit by blast
  then show ?thesis by (simp add: digits_re_matches)
qed

lemma points_text_total: "\<exists>pts. points_text page = Inr pts"
proof (cases "find (\<lambda>(text, children). js_match text points_re \<noteq> None \<and> children = 0)
                (elements page)")
  case None
  then show ?thesis by (simp add: points_text_def)
next
  case (Some el)
  obtain tx ch where el: "el = (tx, ch)" by (cases el)
  from points_lookup_total [OF Some [unfolded el]] obtain gs where
    "js_match tx digits_re = Some gs" by blast
  with Some el show ?thesis by (simp add: points_text_def)
qed

lemma extract_trip_data_total: "\<exists>t. extract_trip_data page = Inr t"
proof -
  from points_text_total obtain pts where "points_text page = Inr pts" by blast
  then show ?thesis by (simp add: extract_trip_data_def)
qed

lemma sweep_item_points: "points (sweep_item tx t) = points t"
  by (simp add: sweep_item_def Let_def split: option.splits)

lemma fold_sweep_item_points: "points (fold sweep_item items t) = points t"
  by (induction items arbitrary: t) (simp_all add: sweep_item_points)

lemma script_vars_points: "points (script_vars page pts) = pts"
  unfolding script_vars_def Let_def by (simp only: trip.simps)

lemma fee_sweep_points: "points (fee_sweep a t) = points t"
  by (simp add: fee_sweep_def)

lemma headline_total_points: "points (headline_total h t) = points t"
  by (simp add: headline_total_def split: option.splits)

lemma tip_fallback_points: "points (tip_fallback a t) = points t"
  by (simp add: tip_fallback_def split: option.splits)

lemma extract_trip_data_fields:
  assumes "extract_trip_data page = Inr t"
  shows "points_text page = Inr (points t)"
    and "durationMin t = duration_minutes (duration_text page)"
proof -
  from points_text_total obtain pts where p: "points_text page = Inr pts" by blast
  with assms have t: "t = (tip_fallback (body_text page)
                  (headline_total (heading page)
                     (fee_sweep (body_text page)
                        (fold sweep_item (list_items page) (script_vars page pts)))))
               \<lparr>durationMin := duration_minutes (duration_text page)\<rparr>"
    by (simp add: extract_trip_data_def)
  show "points_text page = Inr (points t)"
    by (simp add: t p tip_fallback_points headline_total_points fee_sweep_points
          fold_sweep_item_points script_vars_points)
  show "durationMin t = duration_minutes (duration_text page)"
    by (simp add: t)
qed

lemma no_duration_element:
  assumes "\<not> has_duration_element page"
  shows "duration_minutes (duration_text page) = asc ''0''"
proof -
  have "js_match (duration_text page) duration_re = None"
  proof (cases "find (\<lambda>(text, children). js_includes text (asc ''min'')
                        \<and> js_includes text (asc ''sec'') \<and> children = 0) (elements page)")
    case None
    then show ?thesis
      by (simp add: duration_text_def js_match_def duration_re_def many1_def)
  next
    case (Some el)
    obtain tx ch where el: "el = (tx, ch)" by (cases el)
    from Some el have "(tx, ch) \<in> set (elements page)" "ch = 0"
      by (auto simp: find_Some_iff in_set_conv_nth)
    with assms have "js_match (js_trim tx) duration_re = None"
      by (auto simp: has_duration_element_def list_ex_iff)
    with Some el show ?thesis by (simp add: duration_text_def)
  qed
  then show ?thesis by (simp add: duration_minutes_def)
qed

lemma no_points_element:
  assumes "\<not> has_points_element page"
  shows "points_text page = Inr (asc ''0'')"
proof -
  from assms have
    "find (\<lambda>(text, children). js_match text points_re \<noteq> None \<and> children = 0)
          (elements page) = None"
    by (auto simp: has_points_element_def list_ex_iff find_None_iff)
  then show ?thesis by (simp add: points_text_def)
qed

lemma blank_page_defaults: "extract_trip_data blank_page = Inr default_trip"
  by (simp add: extract_trip_data_def points_text_def script_vars_def fee_sweep_def
        headline_total_def tip_fallback_def duration_minutes_def duration_text_def
        blank_page_def default_trip_def js_match_def group_or_def)
     (simp add: header_re_def city_re_def per_mile_re_def per_min_re_def region_re_def
        airport_re_def insurance_re_def uber_re_def customer_re_def tip_included_re_def
        duration_re_def amount_def many1_def opt_def lits_def litsJ_def asc_def)

text \<open>
  Claim C8.  The script returns a record for every page.  On a page with no recognisable
  duration element and no recognisable points element, the record has \<open>durationMin = '0'\<close>
  and \<open>points = '0'\<close>.  On the blank page every field has its default, the empty string
  for the texts and \<open>'0'\<close> for the amounts.
\<close>

theorem extraction_never_aborts:
  "(\<exists>t. extract_trip_data page = Inr t
        \<and> (\<not> has_duration_element page \<and> \<not> has_points_element page
             \<longrightarrow> durationMin t = asc ''0'' \<and> points t = asc ''0'')
        \<and> (\<not> has_duration_element page \<longrightarrow> durationMin t = asc ''0'')
        \<and> (\<not> has_points_element page \<longrightarrow> points t = asc ''0''))
   \<and> extract_trip_data blank_page = Inr default_trip"
proof -
  from extract_trip_data_total obtain t where t: "extract_trip_data page = Inr t" by blast
  have d: "\<not> has_duration_element page \<longrightarrow> durationMin t = asc ''0''"
    using extract_trip_data_fields(2) [OF t] no_duration_element by simp
  have p: "\<not> has_points_element page \<longrightarrow> points t = asc ''0''"
    using extract_trip_data_fields(1) [OF t] no_points_element [of page] by auto
  from t d p blank_page_defaults show ?thesis by blast
qed

lemmas extract_eval = extract_trip_data_def points_text_def script_vars_def fee_sweep_def
  headline_total_def tip_fallback_def duration_minutes_def duration_text_def sweep_item_def
  js_match_def group_or_def js_trim_def js_isspace_def is_digit_def
  header_re_def distance_re_def city_re_def points_re_def digits_re_def per_mile_re_def
  per_min_re_def value_re_def fare_start_re_def fare_re_def region_re_def airport_re_def
  insurance_re_def uber_re_def customer_re_def tip_included_re_def duration_re_def amount_def
  many1_def opt_def lits_def litsJ_def asc_def js_ci_eq_def Let_def

lemma sample_page_no_elements:
  "\<not> has_duration_element sample_page \<and> \<not> has_points_element sample_page"
  by (simp add: has_duration_element_def has_points_element_def sample_page_def extract_eval)

theorem extraction_never_aborts_witness:
  "\<exists>t. extract_trip_data sample_page = Inr t
       \<and> durationMin t = asc ''0'' \<and> points t = asc ''0''"
  using extraction_never_aborts [of sample_page] sample_page_no_elements
  by blast

lemma sample_page_record:
  "extract_trip_data sample_page =
     Inr (default_trip\<lparr>date := asc ''Jul 1, 2024'', time := asc ''3:45 PM'',
            rideType := asc ''UberX'', distancePay := asc ''5.18'', base := asc ''2.50'',
            tip := asc ''1.00'', city := asc ''Portland'',
            pickup := asc ''12 Oak St, Portland, OR, US'',
            dropoff := asc ''9 Elm Ave, Salem, OR, US'', distance := asc ''5.23'',
            perMile := asc ''0.99'', totalEarnings := asc ''8.68''\<rparr>)"
  by (simp add: sample_page_def default_trip_def extract_eval)

lemma duration_minutes_example:
  "duration_minutes (asc ''12 min 30 sec'') = asc ''12.50''"
proof -
  have "\<lfloor>(2501 :: rat) / 2\<rfloor> = 1250"
    using floor_divide_of_int_eq [where ?'a = rat, of 2501 2] by simp
  then show ?thesis
    by (simp add: duration_minutes_def js_match_def duration_re_def many1_def lits_def asc_def
          is_digit_def js_isspace_def dec_def to_fixed2_def show_nat_small show_nat_big)
qed

end
